theory Spec2Isabelle
  imports Main
begin

section \<open>Common types: addresses, unsigned integers, reverts\<close>

text \<open>
  An address is a number, \<open>0\<close> being \<open>address(0)\<close>. A \<open>uint256\<close> is a natural number;
  the contracts are compiled with Solidity 0.8, whose \<open>+\<close>, \<open>-\<close>, \<open>*\<close> and \<open>++\<close> revert
  on overflow and underflow, so every arithmetic operation of the source is one of the
  checked operations below. Every \<open>require\<close> message of the source is a constructor of
  \<open>error\<close>; a revert is the value \<open>Inl e\<close>, and it leaves no state behind.
\<close>

type_synonym address = nat

definition MAX_UINT256 :: nat where
  "MAX_UINT256 = 2 ^ 256 - 1"

datatype error =
    ModelIPFSRequired
  | MetadataIPFSRequired
  | ModelDoesNotExist
  | NotModelCreator
  | OnlyMarketplace
  | OwnableUnauthorized
  | InvalidLicenseType
  | RoyaltyTooHigh
  | InvalidRecipient
  | InvalidVariationIndex
  | SupplyBelowSoldCount
  | InvalidVariationID
  | VariationNotActive
  | TokenDoesNotExist
  | NotTokenOwner
  | ModelNotAvailable
  | InsufficientPayment
  | AlreadyBurned
  | LicenseExpired
  | TokenNotBurned
  | CannotRenewPerpetual
  | TokenBurned
  | InsufficientRenewalPayment
  | NoDerivativeRoyaltySet
  | IncorrectPaymentAmount
  | InvalidOriginalCreator
  | InvalidCreatorAddress
  | PaymentRequired
  | CannotPayYourself
  | NoRoyaltiesToClaim
  | ERC721InvalidReceiver
  | ERC721InvalidSender
  | ERC721NonexistentToken
  | ERC721IncorrectOwner
  | ERC721InsufficientApproval
  | ERC721InvalidApprover
  | ERC721InvalidOperator
  | ArithmeticPanic
  | InsufficientFunds
  | TransferFailed
  | NonPayable

definition bindE :: "error + 'a \<Rightarrow> ('a \<Rightarrow> error + 'b) \<Rightarrow> error + 'b" where
  "bindE r f = (case r of Inl e \<Rightarrow> Inl e | Inr v \<Rightarrow> f v)"

definition checked_add :: "nat \<Rightarrow> nat \<Rightarrow> error + nat" where
  "checked_add a b = (if a + b \<le> MAX_UINT256 then Inr (a + b) else Inl ArithmeticPanic)"

definition checked_sub :: "nat \<Rightarrow> nat \<Rightarrow> error + nat" where
  "checked_sub a b = (if b \<le> a then Inr (a - b) else Inl ArithmeticPanic)"

definition checked_mul :: "nat \<Rightarrow> nat \<Rightarrow> error + nat" where
  "checked_mul a b = (if a * b \<le> MAX_UINT256 then Inr (a * b) else Inl ArithmeticPanic)"

text \<open>
  Inside an \<open>unchecked\<close> block arithmetic wraps around. The libraries the contracts
  import use such blocks for \<open>Counters.increment\<close> and for the token balances of the
  ERC721 base.
\<close>

definition unchecked_inc :: "nat \<Rightarrow> nat" where
  "unchecked_inc n = (n + 1) mod (MAX_UINT256 + 1)"

definition unchecked_dec :: "nat \<Rightarrow> nat" where
  "unchecked_dec n = (n + MAX_UINT256) mod (MAX_UINT256 + 1)"

text \<open>
  The call context: \<open>msg.sender\<close>, \<open>msg.value\<close> and \<open>block.timestamp\<close>. A function that
  the source does not mark \<open>payable\<close> reverts, before its modifiers run, when the call
  carries value: that revert is \<open>NonPayable\<close>, the first test of every such function
  below. The functions marked \<open>payable\<close> are \<open>purchaseModel\<close>, \<open>renewLicense\<close>,
  \<open>payDerivativeRoyalty\<close> and \<open>payDirectRoyalty\<close>. An external call that one contract
  makes to another carries no value. The views are read without value: they are
  functions of the state.
\<close>

record ctx =
  msg_sender :: address
  msg_value :: nat
  block_timestamp :: nat

section \<open>ModelRegistry\<close>

record Model =
  creator :: address
  createdAt :: nat
  updatedAt :: nat
  modelIPFS :: string
  metadataIPFS :: string
  existsFlag :: bool
  active :: bool
  derivativeCount :: nat

text \<open>
  A Solidity mapping is total: a key never written reads as the zero value. The mappings
  are total functions. \<open>Counters.Counter\<close> is a number read by \<open>current\<close> and raised by
  one, unchecked, by \<open>increment\<close>.
\<close>

record ModelRegistry =
  modelIdCounter :: nat
  models :: "nat \<Rightarrow> Model"
  creatorModels :: "address \<Rightarrow> nat list"
  modelDerivatives :: "nat \<Rightarrow> nat list"
  marketplace :: address
  derivativeRoyaltyRegistry :: address
  registryOwner :: address

definition registerModel ::
  "ModelRegistry \<Rightarrow> ctx \<Rightarrow> string \<Rightarrow> string \<Rightarrow> error + (nat \<times> ModelRegistry)" where
  "registerModel r c mIPFS mdIPFS =
    (if msg_value c \<noteq> 0 then Inl NonPayable
     else if \<not> length mIPFS > 0 then Inl ModelIPFSRequired
     else if \<not> length mdIPFS > 0 then Inl MetadataIPFSRequired
     else
       let modelId = modelIdCounter r;
           r1 = r\<lparr>modelIdCounter := unchecked_inc (modelIdCounter r)\<rparr>;
           r2 = r1\<lparr>models := (models r1)(modelId :=
                  \<lparr>creator = msg_sender c,
                   createdAt = block_timestamp c,
                   updatedAt = block_timestamp c,
                   modelIPFS = mIPFS,
                   metadataIPFS = mdIPFS,
                   existsFlag = True,
                   active = True,
                   derivativeCount = 0\<rparr>)\<rparr>;
           r3 = r2\<lparr>creatorModels := (creatorModels r2)
                  (msg_sender c := creatorModels r2 (msg_sender c) @ [modelId])\<rparr>
       in Inr (modelId, r3))"

definition registerDerivativeModel ::
  "ModelRegistry \<Rightarrow> ctx \<Rightarrow> string \<Rightarrow> string \<Rightarrow> nat \<Rightarrow> error + (nat \<times> ModelRegistry)" where
  "registerDerivativeModel r c mIPFS mdIPFS originalModelId =
    (if msg_value c \<noteq> 0 then Inl NonPayable
     else if \<not> existsFlag (models r originalModelId) then Inl ModelDoesNotExist
     else bindE (registerModel r c mIPFS mdIPFS) (\<lambda>(modelId, r1).
       let r2 = r1\<lparr>modelDerivatives := (modelDerivatives r1)
                  (originalModelId := modelDerivatives r1 originalModelId @ [modelId])\<rparr>
       in bindE (checked_add (derivativeCount (models r2 originalModelId)) 1) (\<lambda>n.
            Inr (modelId, r2\<lparr>models := (models r2)(originalModelId :=
                   (models r2 originalModelId)\<lparr>derivativeCount := n\<rparr>)\<rparr>))))"

definition updateMetadata ::
  "ModelRegistry \<Rightarrow> ctx \<Rightarrow> nat \<Rightarrow> string \<Rightarrow> error + ModelRegistry" where
  "updateMetadata r c modelId newMetadataIPFS =
    (if msg_value c \<noteq> 0 then Inl NonPayable
     else if \<not> existsFlag (models r modelId) then Inl ModelDoesNotExist
     else if creator (models r modelId) \<noteq> msg_sender c then Inl NotModelCreator
     else if \<not> length newMetadataIPFS > 0 then Inl MetadataIPFSRequired
     else
       let r1 = r\<lparr>models := (models r)(modelId :=
                  (models r modelId)\<lparr>metadataIPFS := newMetadataIPFS\<rparr>)\<rparr>;
           r2 = r1\<lparr>models := (models r1)(modelId :=
                  (models r1 modelId)\<lparr>updatedAt := block_timestamp c\<rparr>)\<rparr>
       in Inr r2)"

definition toggleModelActive :: "ModelRegistry \<Rightarrow> ctx \<Rightarrow> nat \<Rightarrow> error + ModelRegistry" where
  "toggleModelActive r c modelId =
    (if msg_value c \<noteq> 0 then Inl NonPayable
     else if \<not> existsFlag (models r modelId) then Inl ModelDoesNotExist
     else if creator (models r modelId) \<noteq> msg_sender c then Inl NotModelCreator
     else Inr (r\<lparr>models := (models r)(modelId :=
                  (models r modelId)\<lparr>active := \<not> active (models r modelId)\<rparr>)\<rparr>))"

definition incrementDerivativeCount :: "ModelRegistry \<Rightarrow> ctx \<Rightarrow> nat \<Rightarrow> error + ModelRegistry" where
  "incrementDerivativeCount r c modelId =
    (if msg_value c \<noteq> 0 then Inl NonPayable
     else if \<not> existsFlag (models r modelId) then Inl ModelDoesNotExist
     else if msg_sender c \<noteq> marketplace r then Inl OnlyMarketplace
     else bindE (checked_add (derivativeCount (models r modelId)) 1) (\<lambda>n.
            Inr (r\<lparr>models := (models r)(modelId :=
                   (models r modelId)\<lparr>derivativeCount := n\<rparr>)\<rparr>)))"

definition isModelActive :: "ModelRegistry \<Rightarrow> nat \<Rightarrow> bool" where
  "isModelActive r modelId = (existsFlag (models r modelId) \<and> active (models r modelId))"

definition getCreatorModels :: "ModelRegistry \<Rightarrow> address \<Rightarrow> nat list" where
  "getCreatorModels r a = creatorModels r a"

definition getModelCount :: "ModelRegistry \<Rightarrow> nat" where
  "getModelCount r = modelIdCounter r"

definition getDerivatives :: "ModelRegistry \<Rightarrow> nat \<Rightarrow> error + nat list" where
  "getDerivatives r modelId =
    (if \<not> existsFlag (models r modelId) then Inl ModelDoesNotExist
     else Inr (modelDerivatives r modelId))"

definition setMarketplace :: "ModelRegistry \<Rightarrow> ctx \<Rightarrow> address \<Rightarrow> error + ModelRegistry" where
  "setMarketplace r c a =
    (if msg_value c \<noteq> 0 then Inl NonPayable
     else if msg_sender c \<noteq> registryOwner r then Inl OwnableUnauthorized
     else Inr (r\<lparr>marketplace := a\<rparr>))"

definition setDerivativeRoyaltyRegistry ::
  "ModelRegistry \<Rightarrow> ctx \<Rightarrow> address \<Rightarrow> error + ModelRegistry" where
  "setDerivativeRoyaltyRegistry r c a =
    (if msg_value c \<noteq> 0 then Inl NonPayable
     else if msg_sender c \<noteq> registryOwner r then Inl OwnableUnauthorized
     else Inr (r\<lparr>derivativeRoyaltyRegistry := a\<rparr>))"

text \<open>
  A sequence of \<open>updateMetadata\<close> and \<open>toggleModelActive\<close> transactions: a call that
  reverts leaves the registry as it was.
\<close>

datatype registry_call = UpdateMetadata nat string | ToggleModelActive nat

fun registry_step :: "ModelRegistry \<Rightarrow> ctx \<times> registry_call \<Rightarrow> ModelRegistry" where
  "registry_step r (c, UpdateMetadata modelId s) =
     (case updateMetadata r c modelId s of Inl e \<Rightarrow> r | Inr r' \<Rightarrow> r')"
| "registry_step r (c, ToggleModelActive modelId) =
     (case toggleModelActive r c modelId of Inl e \<Rightarrow> r | Inr r' \<Rightarrow> r')"

definition registry_run :: "ModelRegistry \<Rightarrow> (ctx \<times> registry_call) list \<Rightarrow> ModelRegistry" where
  "registry_run r cs = foldl registry_step r cs"


section \<open>ModelMarketplace\<close>

record LicenseConfig =
  personalPrice :: nat
  indiePrice :: nat
  commercialPrice :: nat
  enterprisePrice :: nat
  personalDuration :: nat
  indieDuration :: nat
  commercialDuration :: nat
  enterpriseDuration :: nat

record Variation =
  variationName :: string
  price :: nat
  variationMetadataIPFS :: string
  variationActive :: bool

record RoyaltyInfo =
  recipient :: address
  bps :: nat

record ModelMarketplace =
  licenseConfigs :: "nat \<Rightarrow> LicenseConfig"
  royalties :: "nat \<Rightarrow> RoyaltyInfo"
  maxSupplies :: "nat \<Rightarrow> nat"
  soldCounts :: "nat \<Rightarrow> nat"
  variations :: "nat \<Rightarrow> Variation list"
  forSale :: "nat \<Rightarrow> bool"
  marketplaceOwner :: address

definition MAX_ROYALTY_BPS :: nat where
  "MAX_ROYALTY_BPS = 2000"

text \<open>
  The functions of the marketplace read the registry it was constructed with: the
  registry is their first argument. The two modifiers \<open>modelExists\<close> and \<open>onlyCreator\<close>
  run in the order the source lists them. The source compares license types through
  \<open>keccak256\<close> of the packed string; the model compares the strings.
\<close>

definition setLicenseConfig ::
  "ModelRegistry \<Rightarrow> ModelMarketplace \<Rightarrow> ctx \<Rightarrow> nat \<Rightarrow> LicenseConfig \<Rightarrow> error + ModelMarketplace" where
  "setLicenseConfig r m c modelId config =
    (if msg_value c \<noteq> 0 then Inl NonPayable
     else if \<not> existsFlag (models r modelId) then Inl ModelDoesNotExist
     else if creator (models r modelId) \<noteq> msg_sender c then Inl NotModelCreator
     else Inr (m\<lparr>licenseConfigs := (licenseConfigs m)(modelId := config)\<rparr>))"

definition setLicensePrice ::
  "ModelRegistry \<Rightarrow> ModelMarketplace \<Rightarrow> ctx \<Rightarrow> nat \<Rightarrow> string \<Rightarrow> nat \<Rightarrow> error + ModelMarketplace" where
  "setLicensePrice r m c modelId licType p =
    (if msg_value c \<noteq> 0 then Inl NonPayable
     else if \<not> existsFlag (models r modelId) then Inl ModelDoesNotExist
     else if creator (models r modelId) \<noteq> msg_sender c then Inl NotModelCreator
     else
       let config = licenseConfigs m modelId in
       if licType = ''personal'' then
         Inr (m\<lparr>licenseConfigs := (licenseConfigs m)(modelId := config\<lparr>personalPrice := p\<rparr>)\<rparr>)
       else if licType = ''indie'' then
         Inr (m\<lparr>licenseConfigs := (licenseConfigs m)(modelId := config\<lparr>indiePrice := p\<rparr>)\<rparr>)
       else if licType = ''commercial'' then
         Inr (m\<lparr>licenseConfigs := (licenseConfigs m)(modelId := config\<lparr>commercialPrice := p\<rparr>)\<rparr>)
       else if licType = ''enterprise'' then
         Inr (m\<lparr>licenseConfigs := (licenseConfigs m)(modelId := config\<lparr>enterprisePrice := p\<rparr>)\<rparr>)
       else Inl InvalidLicenseType)"

definition setRoyalty ::
  "ModelRegistry \<Rightarrow> ModelMarketplace \<Rightarrow> ctx \<Rightarrow> nat \<Rightarrow> address \<Rightarrow> nat \<Rightarrow> error + ModelMarketplace" where
  "setRoyalty r m c modelId rcp b =
    (if msg_value c \<noteq> 0 then Inl NonPayable
     else if \<not> existsFlag (models r modelId) then Inl ModelDoesNotExist
     else if creator (models r modelId) \<noteq> msg_sender c then Inl NotModelCreator
     else if \<not> b \<le> MAX_ROYALTY_BPS then Inl RoyaltyTooHigh
     else if \<not> rcp \<noteq> 0 then Inl InvalidRecipient
     else Inr (m\<lparr>royalties := (royalties m)(modelId := \<lparr>recipient = rcp, bps = b\<rparr>)\<rparr>))"

text \<open>\<open>royaltyInfo\<close> returns the receiver and the royalty AMOUNT of the sale price.\<close>

definition royaltyInfo :: "ModelMarketplace \<Rightarrow> nat \<Rightarrow> nat \<Rightarrow> error + (address \<times> nat)" where
  "royaltyInfo m modelId salePrice =
    (let royalty = royalties m modelId in
     if recipient royalty = 0 then Inr (0, 0)
     else bindE (checked_mul salePrice (bps royalty)) (\<lambda>p.
            Inr (recipient royalty, p div 10000)))"

definition addVariation ::
  "ModelRegistry \<Rightarrow> ModelMarketplace \<Rightarrow> ctx \<Rightarrow> nat \<Rightarrow> string \<Rightarrow> nat \<Rightarrow> string \<Rightarrow> error + ModelMarketplace" where
  "addVariation r m c modelId nm p mdIPFS =
    (if msg_value c \<noteq> 0 then Inl NonPayable
     else if \<not> existsFlag (models r modelId) then Inl ModelDoesNotExist
     else if creator (models r modelId) \<noteq> msg_sender c then Inl NotModelCreator
     else Inr (m\<lparr>variations := (variations m)(modelId := variations m modelId @
            [\<lparr>variationName = nm, price = p, variationMetadataIPFS = mdIPFS,
              variationActive = True\<rparr>])\<rparr>))"

definition toggleVariationActive ::
  "ModelRegistry \<Rightarrow> ModelMarketplace \<Rightarrow> ctx \<Rightarrow> nat \<Rightarrow> nat \<Rightarrow> error + ModelMarketplace" where
  "toggleVariationActive r m c modelId variationIndex =
    (if msg_value c \<noteq> 0 then Inl NonPayable
     else if \<not> existsFlag (models r modelId) then Inl ModelDoesNotExist
     else if creator (models r modelId) \<noteq> msg_sender c then Inl NotModelCreator
     else if \<not> variationIndex < length (variations m modelId) then Inl InvalidVariationIndex
     else
       let v = variations m modelId ! variationIndex in
       Inr (m\<lparr>variations := (variations m)(modelId :=
              (variations m modelId)[variationIndex := v\<lparr>variationActive := \<not> variationActive v\<rparr>])\<rparr>))"

definition setMaxSupply ::
  "ModelRegistry \<Rightarrow> ModelMarketplace \<Rightarrow> ctx \<Rightarrow> nat \<Rightarrow> nat \<Rightarrow> error + ModelMarketplace" where
  "setMaxSupply r m c modelId maxSupply =
    (if msg_value c \<noteq> 0 then Inl NonPayable
     else if \<not> existsFlag (models r modelId) then Inl ModelDoesNotExist
     else if creator (models r modelId) \<noteq> msg_sender c then Inl NotModelCreator
     else if \<not> (maxSupply = 0 \<or> maxSupply \<ge> soldCounts m modelId) then Inl SupplyBelowSoldCount
     else Inr (m\<lparr>maxSupplies := (maxSupplies m)(modelId := maxSupply)\<rparr>))"

definition toggleForSale ::
  "ModelRegistry \<Rightarrow> ModelMarketplace \<Rightarrow> ctx \<Rightarrow> nat \<Rightarrow> error + ModelMarketplace" where
  "toggleForSale r m c modelId =
    (if msg_value c \<noteq> 0 then Inl NonPayable
     else if \<not> existsFlag (models r modelId) then Inl ModelDoesNotExist
     else if creator (models r modelId) \<noteq> msg_sender c then Inl NotModelCreator
     else Inr (m\<lparr>forSale := (forSale m)(modelId := \<not> forSale m modelId)\<rparr>))"

text \<open>
  \<open>incrementSoldCount\<close> has no modifier and no \<open>require\<close>: the caller in the context is
  never read.
\<close>

definition incrementSoldCount :: "ModelMarketplace \<Rightarrow> ctx \<Rightarrow> nat \<Rightarrow> error + ModelMarketplace" where
  "incrementSoldCount m c modelId =
    (if msg_value c \<noteq> 0 then Inl NonPayable
     else bindE (checked_add (soldCounts m modelId) 1) (\<lambda>n.
            Inr (m\<lparr>soldCounts := (soldCounts m)(modelId := n)\<rparr>)))"

definition getLicensePrice :: "ModelMarketplace \<Rightarrow> nat \<Rightarrow> string \<Rightarrow> error + nat" where
  "getLicensePrice m modelId licType =
    (let lic = licenseConfigs m modelId in
     if licType = ''personal'' then Inr (personalPrice lic)
     else if licType = ''indie'' then Inr (indiePrice lic)
     else if licType = ''commercial'' then Inr (commercialPrice lic)
     else if licType = ''enterprise'' then Inr (enterprisePrice lic)
     else Inl InvalidLicenseType)"

definition getLicenseDuration :: "ModelMarketplace \<Rightarrow> nat \<Rightarrow> string \<Rightarrow> error + nat" where
  "getLicenseDuration m modelId licType =
    (let lic = licenseConfigs m modelId in
     if licType = ''personal'' then Inr (personalDuration lic)
     else if licType = ''indie'' then Inr (indieDuration lic)
     else if licType = ''commercial'' then Inr (commercialDuration lic)
     else if licType = ''enterprise'' then Inr (enterpriseDuration lic)
     else Inl InvalidLicenseType)"

definition canPurchase :: "ModelRegistry \<Rightarrow> ModelMarketplace \<Rightarrow> nat \<Rightarrow> bool" where
  "canPurchase r m modelId =
    (if \<not> isModelActive r modelId then False
     else if \<not> forSale m modelId then False
     else
       let maxSupply = maxSupplies m modelId in
       if maxSupply > 0 \<and> soldCounts m modelId \<ge> maxSupply then False
       else True)"

text \<open>The two loops of \<open>getActiveVariations\<close> count, then copy, the active entries in order.\<close>

definition getActiveVariations :: "ModelMarketplace \<Rightarrow> nat \<Rightarrow> Variation list" where
  "getActiveVariations m modelId = filter variationActive (variations m modelId)"

text \<open>The loop of \<open>getTotalPrice\<close> over \<open>variationIds\<close>, \<open>tot\<close> being the running \<open>total\<close>.\<close>

fun addVariationPrices :: "Variation list \<Rightarrow> nat list \<Rightarrow> nat \<Rightarrow> error + nat" where
  "addVariationPrices vs [] tot = Inr tot"
| "addVariationPrices vs (i # ids) tot =
    (if \<not> i < length vs then Inl InvalidVariationID
     else if \<not> variationActive (vs ! i) then Inl VariationNotActive
     else bindE (checked_add tot (price (vs ! i))) (\<lambda>t. addVariationPrices vs ids t))"

definition getTotalPrice :: "ModelMarketplace \<Rightarrow> nat \<Rightarrow> string \<Rightarrow> nat list \<Rightarrow> error + nat" where
  "getTotalPrice m modelId licType varIds =
    bindE (getLicensePrice m modelId licType) (\<lambda>tot.
      addVariationPrices (variations m modelId) varIds tot)"

section \<open>ModelToken: the license records\<close>

record LicenseSnapshot =
  licenseType :: string
  licensePurchasedAt :: nat
  expiresAt :: nat
  duration :: nat

record PurchaseSnapshot =
  snapModelId :: nat
  purchasedAt :: nat
  pricePaid :: nat
  license :: LicenseSnapshot
  snapVariationIds :: "nat list"
  metadataSnapshot :: string
  royaltyBpsAtPurchase :: nat
  burned :: bool
  downloadKey :: string

text \<open>
  The state of the token contract: its own storage, then the storage it inherits from
  the ERC721 base (\<open>owners\<close>, \<open>balances\<close>, the approvals, the token URIs) and from
  \<open>Ownable\<close> (\<open>tokenContractOwner\<close>).
\<close>

record ModelToken =
  tokenIdCounter :: nat
  purchaseSnapshots :: "nat \<Rightarrow> PurchaseSnapshot"
  modelPurchaseCount :: "nat \<Rightarrow> nat"
  userTokens :: "address \<Rightarrow> nat list"
  owners :: "nat \<Rightarrow> address"
  balances :: "address \<Rightarrow> nat"
  tokenApprovals :: "nat \<Rightarrow> address"
  operatorApprovals :: "address \<Rightarrow> address \<Rightarrow> bool"
  tokenURIs :: "nat \<Rightarrow> string"
  tokenContractOwner :: address

subsection \<open>The ERC721 base contract\<close>

text \<open>
  Modelled from the spec: the ERC721 base contract, which the source imports from the
  OpenZeppelin library and which is not part of the repository. The spec gives each
  record one current owner, lets \<open>burnForDownload\<close> retire a record from further
  transfer, and permits \<open>transfer\<close> only while the record is not burned. The model is
  the ownership table of that library: a token exists while its owner is not
  \<open>address(0)\<close>; minting sets the owner, burning clears it, and a transfer needs the
  current owner or somebody the owner approved. Minting, burning and transferring all
  go through \<open>_update\<close>, the hook that the source overrides.
\<close>

definition ERC721_exists :: "ModelToken \<Rightarrow> nat \<Rightarrow> bool" where
  "ERC721_exists t tokenId = (owners t tokenId \<noteq> 0)"

definition ownerOf :: "ModelToken \<Rightarrow> nat \<Rightarrow> error + address" where
  "ownerOf t tokenId =
    (if owners t tokenId = 0 then Inl ERC721NonexistentToken else Inr (owners t tokenId))"

definition isAuthorized :: "ModelToken \<Rightarrow> address \<Rightarrow> address \<Rightarrow> nat \<Rightarrow> bool" where
  "isAuthorized t own spender tokenId =
    (spender \<noteq> 0 \<and>
     (own = spender \<or> operatorApprovals t own spender \<or> tokenApprovals t tokenId = spender))"

definition ERC721_update ::
  "ModelToken \<Rightarrow> address \<Rightarrow> nat \<Rightarrow> address \<Rightarrow> error + (address \<times> ModelToken)" where
  "ERC721_update t to_addr tokenId auth =
    (let from_addr = owners t tokenId in
     if auth \<noteq> 0 \<and> \<not> isAuthorized t from_addr auth tokenId then
       (if from_addr = 0 then Inl ERC721NonexistentToken else Inl ERC721InsufficientApproval)
     else
       let t1 = (if from_addr \<noteq> 0
                 then t\<lparr>tokenApprovals := (tokenApprovals t)(tokenId := 0),
                        balances := (balances t)
                          (from_addr := unchecked_dec (balances t from_addr))\<rparr>
                 else t);
           t2 = (if to_addr \<noteq> 0
                 then t1\<lparr>balances := (balances t1)
                          (to_addr := unchecked_inc (balances t1 to_addr))\<rparr>
                 else t1);
           t3 = t2\<lparr>owners := (owners t2)(tokenId := to_addr)\<rparr>
       in Inr (from_addr, t3))"

subsection \<open>The override of \<open>_update\<close>: the owner index\<close>

text \<open>
  The loop of the override finds the first position of the token in the sender's list,
  overwrites it with the last entry and pops the list.
\<close>

definition removeToken :: "nat list \<Rightarrow> nat \<Rightarrow> nat list" where
  "removeToken fromTokens tokenId =
    (if tokenId \<in> set fromTokens then
       let i = length (takeWhile (\<lambda>x. x \<noteq> tokenId) fromTokens) in
       butlast (fromTokens[i := last fromTokens])
     else fromTokens)"

definition ModelToken_update ::
  "ModelToken \<Rightarrow> address \<Rightarrow> nat \<Rightarrow> address \<Rightarrow> error + (address \<times> ModelToken)" where
  "ModelToken_update t to_addr tokenId auth =
    (let from_addr = owners t tokenId;
         t1 = (if from_addr \<noteq> 0 \<and> to_addr \<noteq> 0 then
                 let ta = t\<lparr>userTokens := (userTokens t)
                            (from_addr := removeToken (userTokens t from_addr) tokenId)\<rparr>
                 in ta\<lparr>userTokens := (userTokens ta)
                            (to_addr := userTokens ta to_addr @ [tokenId])\<rparr>
               else t)
     in ERC721_update t1 to_addr tokenId auth)"

definition ERC721_mint :: "ModelToken \<Rightarrow> address \<Rightarrow> nat \<Rightarrow> error + ModelToken" where
  "ERC721_mint t to_addr tokenId =
    (if to_addr = 0 then Inl ERC721InvalidReceiver
     else bindE (ModelToken_update t to_addr tokenId 0) (\<lambda>(previousOwner, t1).
            if previousOwner \<noteq> 0 then Inl ERC721InvalidSender else Inr t1))"

definition ERC721_burn :: "ModelToken \<Rightarrow> nat \<Rightarrow> error + ModelToken" where
  "ERC721_burn t tokenId =
    bindE (ModelToken_update t 0 tokenId 0) (\<lambda>(previousOwner, t1).
      if previousOwner = 0 then Inl ERC721NonexistentToken else Inr t1)"

definition transferFrom ::
  "ModelToken \<Rightarrow> ctx \<Rightarrow> address \<Rightarrow> address \<Rightarrow> nat \<Rightarrow> error + ModelToken" where
  "transferFrom t c from_addr to_addr tokenId =
    (if msg_value c \<noteq> 0 then Inl NonPayable
     else if to_addr = 0 then Inl ERC721InvalidReceiver
     else bindE (ModelToken_update t to_addr tokenId (msg_sender c)) (\<lambda>(previousOwner, t1).
            if previousOwner \<noteq> from_addr then Inl ERC721IncorrectOwner else Inr t1))"

definition approve :: "ModelToken \<Rightarrow> ctx \<Rightarrow> address \<Rightarrow> nat \<Rightarrow> error + ModelToken" where
  "approve t c to_addr tokenId =
    (if msg_value c \<noteq> 0 then Inl NonPayable
     else bindE (ownerOf t tokenId) (\<lambda>own.
       if own \<noteq> msg_sender c \<and> \<not> operatorApprovals t own (msg_sender c)
       then Inl ERC721InvalidApprover
       else Inr (t\<lparr>tokenApprovals := (tokenApprovals t)(tokenId := to_addr)\<rparr>)))"

definition setApprovalForAll :: "ModelToken \<Rightarrow> ctx \<Rightarrow> address \<Rightarrow> bool \<Rightarrow> error + ModelToken" where
  "setApprovalForAll t c operator approved =
    (if msg_value c \<noteq> 0 then Inl NonPayable
     else if operator = 0 then Inl ERC721InvalidOperator
     else Inr (t\<lparr>operatorApprovals := (operatorApprovals t)
            (msg_sender c := (operatorApprovals t (msg_sender c))(operator := approved))\<rparr>))"

subsection \<open>Views of the token contract\<close>

definition isLicenseValid :: "ModelToken \<Rightarrow> ctx \<Rightarrow> nat \<Rightarrow> bool" where
  "isLicenseValid t c tokenId =
    (let snapshot = purchaseSnapshots t tokenId in
     if expiresAt (license snapshot) = 0 then True
     else block_timestamp c \<le> expiresAt (license snapshot))"

definition getOwnedTokens :: "ModelToken \<Rightarrow> address \<Rightarrow> nat list" where
  "getOwnedTokens t a = userTokens t a"

definition canDownload :: "ModelToken \<Rightarrow> nat \<Rightarrow> bool" where
  "canDownload t tokenId =
    (burned (purchaseSnapshots t tokenId) \<and> length (downloadKey (purchaseSnapshots t tokenId)) > 0)"

definition getBurnCertificate :: "ModelToken \<Rightarrow> nat \<Rightarrow> error + PurchaseSnapshot" where
  "getBurnCertificate t tokenId =
    (if \<not> burned (purchaseSnapshots t tokenId) then Inl TokenNotBurned
     else Inr (purchaseSnapshots t tokenId))"

definition getLicenseTimeRemaining :: "ModelToken \<Rightarrow> ctx \<Rightarrow> nat \<Rightarrow> nat" where
  "getLicenseTimeRemaining t c tokenId =
    (let snapshot = purchaseSnapshots t tokenId in
     if expiresAt (license snapshot) = 0 then MAX_UINT256
     else if block_timestamp c \<ge> expiresAt (license snapshot) then 0
     else expiresAt (license snapshot) - block_timestamp c)"

text \<open>\<open>_toString\<close>: the decimal digits of a number, \<open>"0"\<close> for zero.\<close>

fun toDigits :: "nat \<Rightarrow> string" where
  "toDigits n = (if n = 0 then [] else toDigits (n div 10) @ [char_of (48 + n mod 10)])"

declare toDigits.simps [simp del]

definition toString :: "nat \<Rightarrow> string" where
  "toString n = (if n = 0 then ''0'' else toDigits n)"

section \<open>DerivativeRoyaltyRegistry: the storage\<close>

record DerivativeRoyalty =
  drOriginalModelId :: nat
  originalCreator :: address
  drRoyaltyBps :: nat
  drActive :: bool

record RoyaltyPayment =
  payFrom :: address
  payTo :: address
  payAmount :: nat
  payModelId :: nat
  paymentType :: string
  payMessage :: string
  payTimestamp :: nat

record DerivativeRoyaltyRegistry =
  paymentIdCounter :: nat
  derivativeRoyalties :: "nat \<Rightarrow> DerivativeRoyalty"
  claimableRoyalties :: "address \<Rightarrow> nat"
  royaltyPayments :: "nat \<Rightarrow> RoyaltyPayment"
  creatorPayments :: "address \<Rightarrow> nat list"
  royaltyOwner :: address

definition MAX_DERIVATIVE_ROYALTY_BPS :: nat where
  "MAX_DERIVATIVE_ROYALTY_BPS = 2000"

section \<open>The deployed system\<close>

text \<open>
  The four contracts, the addresses of the two that hold and move funds, the balance of
  every account, and the environment: \<open>accepts a\<close> tells whether account \<open>a\<close> takes a
  plain value transfer (a contract may refuse one), and \<open>keccak256\<close> is the hash of the
  packed triple that the download key is made of.

  \<open>trace\<close> is a ghost field: every storage write of a function of the token contract or
  of the royalty registry, and every outward value transfer, appends one action to it
  in program order. Events are not state and are left out.
\<close>

datatype action = SWrite string | Pay address nat

record world =
  registry :: ModelRegistry
  market :: ModelMarketplace
  token :: ModelToken
  royaltyRegistry :: DerivativeRoyaltyRegistry
  tokenAddr :: address
  royaltyAddr :: address
  eth :: "address \<Rightarrow> nat"
  accepts :: "address \<Rightarrow> bool"
  keccak256 :: "nat \<Rightarrow> nat \<Rightarrow> address \<Rightarrow> nat"
  trace :: "action list"

definition tokenWrite :: "string \<Rightarrow> (ModelToken \<Rightarrow> ModelToken) \<Rightarrow> world \<Rightarrow> world" where
  "tokenWrite var f w = w\<lparr>token := f (token w), trace := trace w @ [SWrite var]\<rparr>"

definition royaltyWrite ::
  "string \<Rightarrow> (DerivativeRoyaltyRegistry \<Rightarrow> DerivativeRoyaltyRegistry) \<Rightarrow> world \<Rightarrow> world" where
  "royaltyWrite var f w =
     w\<lparr>royaltyRegistry := f (royaltyRegistry w), trace := trace w @ [SWrite var]\<rparr>"

definition moveEth :: "(address \<Rightarrow> nat) \<Rightarrow> address \<Rightarrow> address \<Rightarrow> nat \<Rightarrow> (address \<Rightarrow> nat)" where
  "moveEth e a b n = (let e1 = e(a := e a - n) in e1(b := e1 b + n))"

text \<open>
  A payable call first moves \<open>msg.value\<close> from the caller to the contract; a caller who
  does not hold the value cannot make the call.
\<close>

definition receiveValue :: "world \<Rightarrow> ctx \<Rightarrow> address \<Rightarrow> error + world" where
  "receiveValue w c this =
    (if eth w (msg_sender c) < msg_value c then Inl InsufficientFunds
     else Inr (w\<lparr>eth := moveEth (eth w) (msg_sender c) this (msg_value c)\<rparr>))"

text \<open>
  \<open>payable(a).transfer(n)\<close> from contract \<open>this\<close>: reverts when the contract holds less
  than \<open>n\<close> or when the receiver refuses the transfer.
\<close>

definition transfer_to :: "world \<Rightarrow> address \<Rightarrow> address \<Rightarrow> nat \<Rightarrow> error + world" where
  "transfer_to w this a n =
    (if eth w this < n \<or> \<not> accepts w a then Inl TransferFailed
     else Inr (w\<lparr>eth := moveEth (eth w) this a n, trace := trace w @ [Pay a n]\<rparr>))"

section \<open>ModelToken: the transactions\<close>

definition distributePayment ::
  "world \<Rightarrow> address \<Rightarrow> nat \<Rightarrow> address \<Rightarrow> nat \<Rightarrow> error + world" where
  "distributePayment w creatorAddr totalPrice royaltyRecipient royaltyBps =
    bindE (checked_mul totalPrice royaltyBps) (\<lambda>p.
      let royaltyAmount = p div 10000 in
      bindE (checked_sub totalPrice royaltyAmount) (\<lambda>creatorAmount.
        bindE (transfer_to w (tokenAddr w) creatorAddr creatorAmount) (\<lambda>w1.
          if royaltyAmount > 0 \<and> royaltyRecipient \<noteq> 0
          then transfer_to w1 (tokenAddr w1) royaltyRecipient royaltyAmount
          else Inr w1)))"

definition generateDownloadKey :: "world \<Rightarrow> ctx \<Rightarrow> nat \<Rightarrow> string" where
  "generateDownloadKey w c tokenId =
    ''key_'' @ toString tokenId @ ''_'' @ toString (block_timestamp c) @ ''_'' @
    toString (keccak256 w tokenId (block_timestamp c) (msg_sender c))"

text \<open>
  \<open>purchaseModel\<close>. Its modifier is \<open>tokenExists(modelId)\<close>: it asks the ERC721 base
  whether a TOKEN whose id is the model id exists. The pair that \<open>royaltyInfo\<close> returns
  is bound to \<open>(royaltyRecipient, royaltyBps)\<close>, and the second component goes into the
  snapshot and into \<open>_distributePayment\<close> under that name.

  The body runs in three phases, in this order: the checks and price computations; the
  state writes from \<open>_tokenIdCounter.current()\<close> to \<open>marketplace.incrementSoldCount\<close>,
  which are \<open>purchaseEffects\<close>; and \<open>_distributePayment\<close>.
\<close>

definition purchaseEffects ::
  "world \<Rightarrow> ctx \<Rightarrow> nat \<Rightarrow> string \<Rightarrow> nat list \<Rightarrow> nat \<Rightarrow> Model \<Rightarrow> nat \<Rightarrow> nat \<Rightarrow> nat \<Rightarrow> error + world" where
  "purchaseEffects w c modelId licType varIds totalPrice model royaltyBps dur expiry =
    (let tokenId = tokenIdCounter (token w);
         w1 = tokenWrite ''_tokenIdCounter''
                (\<lambda>t. t\<lparr>tokenIdCounter := unchecked_inc (tokenIdCounter t)\<rparr>) w;
         w2 = tokenWrite ''purchaseSnapshots''
                (\<lambda>t. t\<lparr>purchaseSnapshots := (purchaseSnapshots t)(tokenId :=
                   \<lparr>snapModelId = modelId,
                    purchasedAt = block_timestamp c,
                    pricePaid = totalPrice,
                    license = \<lparr>licenseType = licType,
                               licensePurchasedAt = block_timestamp c,
                               expiresAt = expiry,
                               duration = dur\<rparr>,
                    snapVariationIds = varIds,
                    metadataSnapshot = metadataIPFS model,
                    royaltyBpsAtPurchase = royaltyBps,
                    burned = False,
                    downloadKey = []\<rparr>)\<rparr>) w1
     in
     bindE (ERC721_mint (token w2) (msg_sender c) tokenId) (\<lambda>t3.
     let w3 = tokenWrite ''_owners'' (\<lambda>t. t3) w2;
         w4 = tokenWrite ''_tokenURIs''
                (\<lambda>t. t\<lparr>tokenURIs := (tokenURIs t)(tokenId := metadataIPFS model)\<rparr>) w3;
         w5 = tokenWrite ''userTokens''
                (\<lambda>t. t\<lparr>userTokens := (userTokens t)
                   (msg_sender c := userTokens t (msg_sender c) @ [tokenId])\<rparr>) w4
     in
     bindE (checked_add (modelPurchaseCount (token w5) modelId) 1) (\<lambda>n.
     let w6 = tokenWrite ''modelPurchaseCount''
                (\<lambda>t. t\<lparr>modelPurchaseCount := (modelPurchaseCount t)(modelId := n)\<rparr>) w5
     in
     bindE (incrementSoldCount (market w6)
              \<lparr>msg_sender = tokenAddr w6, msg_value = 0, block_timestamp = block_timestamp c\<rparr>
              modelId) (\<lambda>m7.
     Inr (w6\<lparr>market := m7, trace := trace w6 @ [SWrite ''soldCounts'']\<rparr>)))))"

definition purchaseModel :: "world \<Rightarrow> ctx \<Rightarrow> nat \<Rightarrow> string \<Rightarrow> nat list \<Rightarrow> error + world" where
  "purchaseModel w0 c modelId licType varIds =
    bindE (receiveValue w0 c (tokenAddr w0)) (\<lambda>w.
    if \<not> ERC721_exists (token w) modelId then Inl TokenDoesNotExist
    else if \<not> canPurchase (registry w) (market w) modelId then Inl ModelNotAvailable
    else bindE (getTotalPrice (market w) modelId licType varIds) (\<lambda>totalPrice.
    if \<not> msg_value c \<ge> totalPrice then Inl InsufficientPayment
    else
      let model = models (registry w) modelId in
      bindE (royaltyInfo (market w) modelId totalPrice) (\<lambda>(royaltyRecipient, royaltyBps).
      bindE (getLicenseDuration (market w) modelId licType) (\<lambda>dur.
      bindE (if dur > 0 then checked_add (block_timestamp c) dur else Inr 0) (\<lambda>expiry.
      bindE (purchaseEffects w c modelId licType varIds totalPrice model royaltyBps dur expiry)
        (\<lambda>w7.
      distributePayment w7 (creator model) totalPrice royaltyRecipient royaltyBps))))))"

text \<open>
  \<open>burnForDownload\<close>: the modifiers \<open>tokenExists\<close> and \<open>onlyTokenOwner\<close>, the two
  \<open>require\<close>s, the two writes to the snapshot, then \<open>_burn\<close>.
\<close>

definition burnForDownload :: "world \<Rightarrow> ctx \<Rightarrow> nat \<Rightarrow> error + world" where
  "burnForDownload w c tokenId =
    (if msg_value c \<noteq> 0 then Inl NonPayable
     else if \<not> ERC721_exists (token w) tokenId then Inl TokenDoesNotExist
     else bindE (ownerOf (token w) tokenId) (\<lambda>own.
     if own \<noteq> msg_sender c then Inl NotTokenOwner
     else
       let snapshot = purchaseSnapshots (token w) tokenId in
       if burned snapshot then Inl AlreadyBurned
       else if \<not> isLicenseValid (token w) c tokenId then Inl LicenseExpired
       else
         let key = generateDownloadKey w c tokenId;
             w1 = tokenWrite ''purchaseSnapshots.burned''
                    (\<lambda>t. t\<lparr>purchaseSnapshots := (purchaseSnapshots t)(tokenId :=
                       (purchaseSnapshots t tokenId)\<lparr>burned := True\<rparr>)\<rparr>) w;
             w2 = tokenWrite ''purchaseSnapshots.downloadKey''
                    (\<lambda>t. t\<lparr>purchaseSnapshots := (purchaseSnapshots t)(tokenId :=
                       (purchaseSnapshots t tokenId)\<lparr>downloadKey := key\<rparr>)\<rparr>) w1
         in bindE (ERC721_burn (token w2) tokenId) (\<lambda>t3.
              Inr (tokenWrite ''_owners'' (\<lambda>t. t3) w2))))"

definition setDownloadKey :: "world \<Rightarrow> ctx \<Rightarrow> nat \<Rightarrow> string \<Rightarrow> error + world" where
  "setDownloadKey w c tokenId key =
    (if msg_value c \<noteq> 0 then Inl NonPayable
     else if msg_sender c \<noteq> tokenContractOwner (token w) then Inl OwnableUnauthorized
     else if \<not> burned (purchaseSnapshots (token w) tokenId) then Inl TokenNotBurned
     else Inr (tokenWrite ''purchaseSnapshots.downloadKey''
            (\<lambda>t. t\<lparr>purchaseSnapshots := (purchaseSnapshots t)(tokenId :=
               (purchaseSnapshots t tokenId)\<lparr>downloadKey := key\<rparr>)\<rparr>) w))"

text \<open>
  \<open>renewLicense\<close>. Its last statement, the block \<open>if (royaltyAmount > 0) { ... }\<close>, is
  \<open>payRenewalRoyalty\<close>: it asks the marketplace for the royalty recipient of the model
  as it is configured now, and pays that account if it is not \<open>address(0)\<close>.
\<close>

definition payRenewalRoyalty :: "world \<Rightarrow> nat \<Rightarrow> nat \<Rightarrow> nat \<Rightarrow> error + world" where
  "payRenewalRoyalty w2 modelId renewalPrice royaltyAmount =
    (if royaltyAmount > 0 then
       bindE (royaltyInfo (market w2) modelId renewalPrice) (\<lambda>(royaltyRecipient, x).
         if royaltyRecipient \<noteq> 0
         then transfer_to w2 (tokenAddr w2) royaltyRecipient royaltyAmount
         else Inr w2)
     else Inr w2)"

definition renewLicense :: "world \<Rightarrow> ctx \<Rightarrow> nat \<Rightarrow> error + world" where
  "renewLicense w0 c tokenId =
    bindE (receiveValue w0 c (tokenAddr w0)) (\<lambda>w.
    if \<not> ERC721_exists (token w) tokenId then Inl TokenDoesNotExist
    else bindE (ownerOf (token w) tokenId) (\<lambda>own.
    if own \<noteq> msg_sender c then Inl NotTokenOwner
    else
      let snapshot = purchaseSnapshots (token w) tokenId in
      if \<not> expiresAt (license snapshot) > 0 then Inl CannotRenewPerpetual
      else if burned snapshot then Inl TokenBurned
      else
        let modelId = snapModelId snapshot in
        bindE (getLicensePrice (market w) modelId (licenseType (license snapshot)))
          (\<lambda>renewalPrice.
        if \<not> msg_value c \<ge> renewalPrice then Inl InsufficientRenewalPayment
        else
          bindE (checked_add (expiresAt (license snapshot)) (duration (license snapshot)))
            (\<lambda>newExpiry.
          let w1 = tokenWrite ''purchaseSnapshots.license.expiresAt''
                     (\<lambda>t. t\<lparr>purchaseSnapshots := (purchaseSnapshots t)(tokenId :=
                        (purchaseSnapshots t tokenId)\<lparr>license :=
                           (license (purchaseSnapshots t tokenId))\<lparr>expiresAt := newExpiry\<rparr>\<rparr>)\<rparr>) w;
              model = models (registry w1) modelId
          in
          bindE (checked_mul renewalPrice (royaltyBpsAtPurchase snapshot)) (\<lambda>p.
          let royaltyAmount = p div 10000 in
          bindE (checked_sub renewalPrice royaltyAmount) (\<lambda>creatorAmount.
          bindE (transfer_to w1 (tokenAddr w1) (creator model) creatorAmount) (\<lambda>w2.
          payRenewalRoyalty w2 modelId renewalPrice royaltyAmount)))))))"

text \<open>The ERC721 entry points, as transactions of the deployed system.\<close>

definition tokenTransferFrom ::
  "world \<Rightarrow> ctx \<Rightarrow> address \<Rightarrow> address \<Rightarrow> nat \<Rightarrow> error + world" where
  "tokenTransferFrom w c from_addr to_addr tokenId =
    bindE (transferFrom (token w) c from_addr to_addr tokenId) (\<lambda>t1.
      Inr (tokenWrite ''_owners'' (\<lambda>t. t1) w))"

definition tokenApprove :: "world \<Rightarrow> ctx \<Rightarrow> address \<Rightarrow> nat \<Rightarrow> error + world" where
  "tokenApprove w c to_addr tokenId =
    bindE (approve (token w) c to_addr tokenId) (\<lambda>t1.
      Inr (tokenWrite ''_tokenApprovals'' (\<lambda>t. t1) w))"

definition tokenSetApprovalForAll :: "world \<Rightarrow> ctx \<Rightarrow> address \<Rightarrow> bool \<Rightarrow> error + world" where
  "tokenSetApprovalForAll w c operator approved =
    bindE (setApprovalForAll (token w) c operator approved) (\<lambda>t1.
      Inr (tokenWrite ''_operatorApprovals'' (\<lambda>t. t1) w))"

section \<open>DerivativeRoyaltyRegistry: the transactions\<close>

text \<open>
  \<open>setDerivativeRoyalty\<close> ends with the external call \<open>registry.incrementDerivativeCount\<close>,
  whose \<open>msg.sender\<close> is the royalty registry; a revert of that call reverts the whole
  transaction.
\<close>

definition setDerivativeRoyalty :: "world \<Rightarrow> ctx \<Rightarrow> nat \<Rightarrow> nat \<Rightarrow> nat \<Rightarrow> error + world" where
  "setDerivativeRoyalty w c derivativeModelId originalModelId royaltyBps =
    (if msg_value c \<noteq> 0 then Inl NonPayable
     else if \<not> existsFlag (models (registry w) derivativeModelId) then Inl ModelDoesNotExist
     else if \<not> existsFlag (models (registry w) originalModelId) then Inl ModelDoesNotExist
     else if \<not> royaltyBps \<le> MAX_DERIVATIVE_ROYALTY_BPS then Inl RoyaltyTooHigh
     else
       let originalModel = models (registry w) originalModelId in
       if \<not> creator originalModel \<noteq> 0 then Inl InvalidOriginalCreator
       else
         let w1 = royaltyWrite ''derivativeRoyalties''
                    (\<lambda>d. d\<lparr>derivativeRoyalties := (derivativeRoyalties d)(derivativeModelId :=
                       \<lparr>drOriginalModelId = originalModelId,
                        originalCreator = creator originalModel,
                        drRoyaltyBps = royaltyBps,
                        drActive = True\<rparr>)\<rparr>) w
         in
         bindE (incrementDerivativeCount (registry w1)
                  \<lparr>msg_sender = royaltyAddr w1, msg_value = 0,
                   block_timestamp = block_timestamp c\<rparr>
                  originalModelId) (\<lambda>r2.
           Inr (w1\<lparr>registry := r2, trace := trace w1 @ [SWrite ''models.derivativeCount'']\<rparr>)))"

definition payDerivativeRoyalty :: "world \<Rightarrow> ctx \<Rightarrow> nat \<Rightarrow> nat \<Rightarrow> error + world" where
  "payDerivativeRoyalty w0 c derivativeModelId salePrice =
    bindE (receiveValue w0 c (royaltyAddr w0)) (\<lambda>w.
    if \<not> existsFlag (models (registry w) derivativeModelId) then Inl ModelDoesNotExist
    else
      let royalty = derivativeRoyalties (royaltyRegistry w) derivativeModelId in
      if \<not> drActive royalty then Inl NoDerivativeRoyaltySet
      else if \<not> msg_value c = salePrice then Inl IncorrectPaymentAmount
      else
        bindE (checked_mul salePrice (drRoyaltyBps royalty)) (\<lambda>p.
        let royaltyAmount = p div 10000 in
        bindE (checked_sub salePrice royaltyAmount) (\<lambda>remainingAmount.
        bindE (checked_add (claimableRoyalties (royaltyRegistry w) (originalCreator royalty))
                 royaltyAmount) (\<lambda>newClaimable.
        let w1 = royaltyWrite ''claimableRoyalties''
                   (\<lambda>d. d\<lparr>claimableRoyalties := (claimableRoyalties d)
                      (originalCreator royalty := newClaimable)\<rparr>) w
        in
        bindE (transfer_to w1 (royaltyAddr w1) (msg_sender c) remainingAmount) (\<lambda>w2.
        let paymentId = paymentIdCounter (royaltyRegistry w2);
            w3 = royaltyWrite ''_paymentIdCounter''
                   (\<lambda>d. d\<lparr>paymentIdCounter := unchecked_inc (paymentIdCounter d)\<rparr>) w2;
            w4 = royaltyWrite ''royaltyPayments''
                   (\<lambda>d. d\<lparr>royaltyPayments := (royaltyPayments d)(paymentId :=
                      \<lparr>payFrom = msg_sender c,
                       payTo = originalCreator royalty,
                       payAmount = royaltyAmount,
                       payModelId = derivativeModelId,
                       paymentType = ''derivative'',
                       payMessage = [],
                       payTimestamp = block_timestamp c\<rparr>)\<rparr>) w3;
            w5 = royaltyWrite ''creatorPayments''
                   (\<lambda>d. d\<lparr>creatorPayments := (creatorPayments d)
                      (originalCreator royalty :=
                         creatorPayments d (originalCreator royalty) @ [paymentId])\<rparr>) w4
        in Inr w5)))))"

definition payDirectRoyalty :: "world \<Rightarrow> ctx \<Rightarrow> address \<Rightarrow> string \<Rightarrow> error + world" where
  "payDirectRoyalty w0 c creatorAddr message =
    bindE (receiveValue w0 c (royaltyAddr w0)) (\<lambda>w.
    if \<not> creatorAddr \<noteq> 0 then Inl InvalidCreatorAddress
    else if \<not> msg_value c > 0 then Inl PaymentRequired
    else if \<not> creatorAddr \<noteq> msg_sender c then Inl CannotPayYourself
    else
      bindE (checked_add (claimableRoyalties (royaltyRegistry w) creatorAddr) (msg_value c))
        (\<lambda>newClaimable.
      let w1 = royaltyWrite ''claimableRoyalties''
                 (\<lambda>d. d\<lparr>claimableRoyalties := (claimableRoyalties d)
                    (creatorAddr := newClaimable)\<rparr>) w;
          paymentId = paymentIdCounter (royaltyRegistry w1);
          w2 = royaltyWrite ''_paymentIdCounter''
                 (\<lambda>d. d\<lparr>paymentIdCounter := unchecked_inc (paymentIdCounter d)\<rparr>) w1;
          w3 = royaltyWrite ''royaltyPayments''
                 (\<lambda>d. d\<lparr>royaltyPayments := (royaltyPayments d)(paymentId :=
                    \<lparr>payFrom = msg_sender c,
                     payTo = creatorAddr,
                     payAmount = msg_value c,
                     payModelId = 0,
                     paymentType = ''direct'',
                     payMessage = message,
                     payTimestamp = block_timestamp c\<rparr>)\<rparr>) w2;
          w4 = royaltyWrite ''creatorPayments''
                 (\<lambda>d. d\<lparr>creatorPayments := (creatorPayments d)
                    (creatorAddr := creatorPayments d creatorAddr @ [paymentId])\<rparr>) w3
      in Inr w4))"

definition claimRoyalties :: "world \<Rightarrow> ctx \<Rightarrow> error + world" where
  "claimRoyalties w c =
    (if msg_value c \<noteq> 0 then Inl NonPayable
     else
       let amount = claimableRoyalties (royaltyRegistry w) (msg_sender c) in
       if \<not> amount > 0 then Inl NoRoyaltiesToClaim
       else
         let w1 = royaltyWrite ''claimableRoyalties''
                    (\<lambda>d. d\<lparr>claimableRoyalties := (claimableRoyalties d)(msg_sender c := 0)\<rparr>) w
         in transfer_to w1 (royaltyAddr w1) (msg_sender c) amount)"

definition getDerivativeRoyalty :: "DerivativeRoyaltyRegistry \<Rightarrow> nat \<Rightarrow> DerivativeRoyalty" where
  "getDerivativeRoyalty d derivativeModelId = derivativeRoyalties d derivativeModelId"

definition getClaimableRoyalties :: "DerivativeRoyaltyRegistry \<Rightarrow> address \<Rightarrow> nat" where
  "getClaimableRoyalties d a = claimableRoyalties d a"

definition getRoyaltyHistory :: "DerivativeRoyaltyRegistry \<Rightarrow> address \<Rightarrow> RoyaltyPayment list" where
  "getRoyaltyHistory d a = map (royaltyPayments d) (creatorPayments d a)"

definition deactivateDerivativeRoyalty :: "world \<Rightarrow> ctx \<Rightarrow> nat \<Rightarrow> error + world" where
  "deactivateDerivativeRoyalty w c derivativeModelId =
    (if msg_value c \<noteq> 0 then Inl NonPayable
     else if msg_sender c \<noteq> royaltyOwner (royaltyRegistry w) then Inl OwnableUnauthorized
     else Inr (royaltyWrite ''derivativeRoyalties.active''
            (\<lambda>d. d\<lparr>derivativeRoyalties := (derivativeRoyalties d)(derivativeModelId :=
               (derivativeRoyalties d derivativeModelId)\<lparr>drActive := False\<rparr>)\<rparr>) w))"

section \<open>Concrete deployments\<close>

text \<open>
  The state right after the four constructors ran: deployer \<open>1\<close>, the token contract at
  address \<open>100\<close>, the royalty registry at \<open>101\<close>. The two contracts have no \<open>receive\<close>
  function and refuse plain transfers; every other account accepts them. The accounts
  \<open>30\<close> and \<open>40\<close> hold funds.
\<close>

definition zeroModel :: Model where
  "zeroModel = \<lparr>creator = 0, createdAt = 0, updatedAt = 0, modelIPFS = [], metadataIPFS = [],
     existsFlag = False, active = False, derivativeCount = 0\<rparr>"

definition initRegistry :: "address \<Rightarrow> ModelRegistry" where
  "initRegistry deployer =
    \<lparr>modelIdCounter = 0, models = (\<lambda>i. zeroModel), creatorModels = (\<lambda>a. []),
     modelDerivatives = (\<lambda>i. []), marketplace = 0, derivativeRoyaltyRegistry = 0,
     registryOwner = deployer\<rparr>"

definition initMarket :: "address \<Rightarrow> ModelMarketplace" where
  "initMarket deployer =
    \<lparr>licenseConfigs = (\<lambda>i. \<lparr>personalPrice = 0, indiePrice = 0, commercialPrice = 0,
        enterprisePrice = 0, personalDuration = 0, indieDuration = 0,
        commercialDuration = 0, enterpriseDuration = 0\<rparr>),
     royalties = (\<lambda>i. \<lparr>recipient = 0, bps = 0\<rparr>),
     maxSupplies = (\<lambda>i. 0), soldCounts = (\<lambda>i. 0), variations = (\<lambda>i. []),
     forSale = (\<lambda>i. False), marketplaceOwner = deployer\<rparr>"

definition zeroSnapshot :: PurchaseSnapshot where
  "zeroSnapshot =
    \<lparr>snapModelId = 0, purchasedAt = 0, pricePaid = 0,
     license = \<lparr>licenseType = [], licensePurchasedAt = 0, expiresAt = 0, duration = 0\<rparr>,
     snapVariationIds = [], metadataSnapshot = [], royaltyBpsAtPurchase = 0,
     burned = False, downloadKey = []\<rparr>"

definition initToken :: "address \<Rightarrow> ModelToken" where
  "initToken deployer =
    \<lparr>tokenIdCounter = 0, purchaseSnapshots = (\<lambda>i. zeroSnapshot),
     modelPurchaseCount = (\<lambda>i. 0), userTokens = (\<lambda>a. []), owners = (\<lambda>i. 0),
     balances = (\<lambda>a. 0), tokenApprovals = (\<lambda>i. 0), operatorApprovals = (\<lambda>a b. False),
     tokenURIs = (\<lambda>i. []), tokenContractOwner = deployer\<rparr>"

definition initRoyaltyRegistry :: "address \<Rightarrow> DerivativeRoyaltyRegistry" where
  "initRoyaltyRegistry deployer =
    \<lparr>paymentIdCounter = 0,
     derivativeRoyalties = (\<lambda>i. \<lparr>drOriginalModelId = 0, originalCreator = 0,
        drRoyaltyBps = 0, drActive = False\<rparr>),
     claimableRoyalties = (\<lambda>a. 0),
     royaltyPayments = (\<lambda>i. \<lparr>payFrom = 0, payTo = 0, payAmount = 0, payModelId = 0,
        paymentType = [], payMessage = [], payTimestamp = 0\<rparr>),
     creatorPayments = (\<lambda>a. []), royaltyOwner = deployer\<rparr>"

definition deployed :: world where
  "deployed =
    \<lparr>registry = initRegistry 1, market = initMarket 1, token = initToken 1,
     royaltyRegistry = initRoyaltyRegistry 1, tokenAddr = 100, royaltyAddr = 101,
     eth = (\<lambda>a. 0)(30 := 1000, 40 := 1000),
     accepts = (\<lambda>a. a \<noteq> 100 \<and> a \<noteq> 101),
     keccak256 = (\<lambda>tokenId ts a. 7 * tokenId + 11 * ts + 13 * a),
     trace = []\<rparr>"

text \<open>
  Creator \<open>10\<close> registers model \<open>0\<close> at time \<open>1000\<close>, prices the commercial license at
  \<open>300\<close> for one year, sets a royalty of \<open>1000\<close> basis points to account \<open>20\<close> and puts
  the model on sale.
\<close>

definition sampleRegistry :: ModelRegistry where
  "sampleRegistry =
    \<lparr>modelIdCounter = 1,
     models = (\<lambda>i. zeroModel)(0 :=
       \<lparr>creator = 10, createdAt = 1000, updatedAt = 1000, modelIPFS = ''QmModel'',
        metadataIPFS = ''QmMeta'', existsFlag = True, active = True, derivativeCount = 0\<rparr>),
     creatorModels = (\<lambda>a. [])(10 := [0]),
     modelDerivatives = (\<lambda>i. []), marketplace = 0, derivativeRoyaltyRegistry = 0,
     registryOwner = 1\<rparr>"

definition sampleConfig :: LicenseConfig where
  "sampleConfig =
    \<lparr>personalPrice = 50, indiePrice = 150, commercialPrice = 300, enterprisePrice = 1000,
     personalDuration = 0, indieDuration = 31536000, commercialDuration = 31536000,
     enterpriseDuration = 31536000\<rparr>"

definition sampleMarket :: ModelMarketplace where
  "sampleMarket =
    (initMarket 1)\<lparr>licenseConfigs := (licenseConfigs (initMarket 1))(0 := sampleConfig),
       royalties := (royalties (initMarket 1))(0 := \<lparr>recipient = 20, bps = 1000\<rparr>),
       forSale := (forSale (initMarket 1))(0 := True)\<rparr>"

definition listed :: world where
  "listed = deployed\<lparr>registry := sampleRegistry, market := sampleMarket\<rparr>"

definition ctxOf :: "address \<Rightarrow> nat \<Rightarrow> nat \<Rightarrow> ctx" where
  "ctxOf a v ts = \<lparr>msg_sender = a, msg_value = v, block_timestamp = ts\<rparr>"

text \<open>
  Account \<open>11\<close> registers a second model, \<open>1\<close>, at time \<open>1100\<close>. In \<open>twoModels\<close> the
  registry's \<open>marketplace\<close> address has never been set; in \<open>wired\<close> the owner has set it
  to the address of the royalty registry; \<open>royaltySample\<close> is \<open>wired\<close> after
  \<open>setDerivativeRoyalty(1, 0, 1000)\<close>.
\<close>

definition sampleRegistry2 :: ModelRegistry where
  "sampleRegistry2 =
    \<lparr>modelIdCounter = 2,
     models = (\<lambda>i. zeroModel)
       (0 := \<lparr>creator = 10, createdAt = 1000, updatedAt = 1000, modelIPFS = ''QmModel'',
          metadataIPFS = ''QmMeta'', existsFlag = True, active = True, derivativeCount = 0\<rparr>,
        1 := \<lparr>creator = 11, createdAt = 1100, updatedAt = 1100, modelIPFS = ''QmDeriv'',
          metadataIPFS = ''QmDerivMeta'', existsFlag = True, active = True,
          derivativeCount = 0\<rparr>),
     creatorModels = (\<lambda>a. [])(10 := [0], 11 := [1]),
     modelDerivatives = (\<lambda>i. []), marketplace = 0, derivativeRoyaltyRegistry = 0,
     registryOwner = 1\<rparr>"

definition twoModels :: world where
  "twoModels = deployed\<lparr>registry := sampleRegistry2\<rparr>"

definition wired :: world where
  "wired = deployed\<lparr>registry := sampleRegistry2\<lparr>marketplace := 101\<rparr>\<rparr>"

definition royaltySample :: world where
  "royaltySample =
    wired\<lparr>registry := (registry wired)\<lparr>models := (models (registry wired))(0 :=
              (models (registry wired) 0)\<lparr>derivativeCount := 1\<rparr>)\<rparr>,
          royaltyRegistry := (royaltyRegistry wired)\<lparr>derivativeRoyalties :=
              (derivativeRoyalties (royaltyRegistry wired))(1 :=
                 \<lparr>drOriginalModelId = 0, originalCreator = 10, drRoyaltyBps = 1000,
                  drActive = True\<rparr>)\<rparr>,
          trace := [SWrite ''derivativeRoyalties'', SWrite ''models.derivativeCount'']\<rparr>"

text \<open>
  \<open>listedMinted\<close> is \<open>listed\<close> with one license record in it: token \<open>0\<close>, a commercial
  license of model \<open>0\<close> held by account \<open>40\<close>, bought at time \<open>1500\<close> for \<open>300\<close>. The
  snapshot holds what \<open>purchaseModel\<close> writes for that purchase.
\<close>

definition sampleSnapshot :: PurchaseSnapshot where
  "sampleSnapshot =
    \<lparr>snapModelId = 0, purchasedAt = 1500, pricePaid = 300,
     license = \<lparr>licenseType = ''commercial'', licensePurchasedAt = 1500,
                expiresAt = 31537500, duration = 31536000\<rparr>,
     snapVariationIds = [], metadataSnapshot = ''QmMeta'', royaltyBpsAtPurchase = 30,
     burned = False, downloadKey = []\<rparr>"

definition sampleToken :: ModelToken where
  "sampleToken =
    (initToken 1)\<lparr>tokenIdCounter := 1,
       purchaseSnapshots := (purchaseSnapshots (initToken 1))(0 := sampleSnapshot),
       modelPurchaseCount := (modelPurchaseCount (initToken 1))(0 := 1),
       userTokens := (userTokens (initToken 1))(40 := [0]),
       owners := (owners (initToken 1))(0 := 40),
       balances := (balances (initToken 1))(40 := 1),
       tokenURIs := (tokenURIs (initToken 1))(0 := ''QmMeta'')\<rparr>"

definition listedMinted :: world where
  "listedMinted =
    listed\<lparr>token := sampleToken,
           market := sampleMarket\<lparr>soldCounts := (soldCounts sampleMarket)(0 := 1)\<rparr>\<rparr>"

text \<open>
  \<open>tipped\<close> is \<open>deployed\<close> after account \<open>40\<close> tipped creator \<open>10\<close> with \<open>50\<close>;
  \<open>claimed\<close> is \<open>tipped\<close> after the creator's claim. \<open>burnedSample\<close> is \<open>listedMinted\<close>
  after the holder \<open>40\<close> burned token \<open>0\<close> at time \<open>2000\<close>, and \<open>rekeyedSample\<close> is
  \<open>burnedSample\<close> after the contract owner \<open>1\<close> set another download key.
\<close>

definition tipped :: world where
  "tipped = projr (payDirectRoyalty deployed (ctxOf 40 50 6000) 10 ''great work'')"

definition claimed :: world where
  "claimed = projr (claimRoyalties tipped (ctxOf 10 0 7000))"



text \<open>
  \<open>deactivatedSample\<close> is \<open>royaltySample\<close> after the owner \<open>1\<close> of the royalty registry
  deactivated the derivative royalty of model \<open>1\<close>; \<open>reactivatedSample\<close> is that state
  after account \<open>999\<close>, who created no model and owns no contract, called
  \<open>setDerivativeRoyalty(1, 0, 2000)\<close>.
\<close>

definition deactivatedSample :: world where
  "deactivatedSample = projr (deactivateDerivativeRoyalty royaltySample (ctxOf 1 0 1400) 1)"

definition reactivatedSample :: world where
  "reactivatedSample = projr (setDerivativeRoyalty deactivatedSample (ctxOf 999 0 1500) 1 0 2000)"

section \<open>Transaction traces and transaction sequences\<close>

text \<open>
  The actions one transaction appended to the trace, and the checks-effects-interactions
  order on them: once a value transfer has happened, only value transfers follow.
\<close>

definition txTrace :: "world \<Rightarrow> world \<Rightarrow> action list" where
  "txTrace w w' = drop (length (trace w)) (trace w')"

fun onlyPays :: "action list \<Rightarrow> bool" where
  "onlyPays [] = True"
| "onlyPays (Pay a n # acts) = onlyPays acts"
| "onlyPays (SWrite v # acts) = False"

fun effectsBeforeInteractions :: "action list \<Rightarrow> bool" where
  "effectsBeforeInteractions [] = True"
| "effectsBeforeInteractions (SWrite v # acts) = effectsBeforeInteractions acts"
| "effectsBeforeInteractions (Pay a n # acts) = onlyPays acts"

text \<open>What a transaction's outcome shows: its actions, and an account's balance after it.\<close>

definition actionsOf :: "world \<Rightarrow> error + world \<Rightarrow> error + action list" where
  "actionsOf w r = bindE r (\<lambda>w'. Inr (txTrace w w'))"

definition balanceAfter :: "error + world \<Rightarrow> address \<Rightarrow> error + nat" where
  "balanceAfter r a = bindE r (\<lambda>w'. Inr (eth w' a))"



text \<open>
  The external transactions of the token contract. A transaction that reverts leaves
  the state as it was.
\<close>

datatype token_call =
    PurchaseModel nat string "nat list"
  | BurnForDownload nat
  | SetDownloadKey nat string
  | RenewLicense nat
  | TransferFrom address address nat
  | Approve address nat
  | SetApprovalForAll address bool

fun token_exec :: "world \<Rightarrow> ctx \<Rightarrow> token_call \<Rightarrow> error + world" where
  "token_exec w c (PurchaseModel modelId licType varIds) = purchaseModel w c modelId licType varIds"
| "token_exec w c (BurnForDownload tokenId) = burnForDownload w c tokenId"
| "token_exec w c (SetDownloadKey tokenId key) = setDownloadKey w c tokenId key"
| "token_exec w c (RenewLicense tokenId) = renewLicense w c tokenId"
| "token_exec w c (TransferFrom from_addr to_addr tokenId) =
     tokenTransferFrom w c from_addr to_addr tokenId"
| "token_exec w c (Approve to_addr tokenId) = tokenApprove w c to_addr tokenId"
| "token_exec w c (SetApprovalForAll operator approved) =
     tokenSetApprovalForAll w c operator approved"

definition token_step :: "world \<Rightarrow> ctx \<times> token_call \<Rightarrow> world" where
  "token_step w x = (case token_exec w (fst x) (snd x) of Inl e \<Rightarrow> w | Inr w' \<Rightarrow> w')"

definition token_run :: "world \<Rightarrow> (ctx \<times> token_call) list \<Rightarrow> world" where
  "token_run w cs = foldl token_step w cs"


text \<open>
  The invariant of the ownership table: every token that has an owner, and every
  record that was burned, has an id below the counter; a burned record has no owner; a
  token without owner carries no approval, and \<open>address(0)\<close> has no operators.
\<close>

definition token_inv :: "ModelToken \<Rightarrow> bool" where
  "token_inv t =
    ((\<forall>i. owners t i \<noteq> 0 \<longrightarrow> i < tokenIdCounter t) \<and>
     (\<forall>i. burned (purchaseSnapshots t i) \<longrightarrow> owners t i = 0 \<and> i < tokenIdCounter t) \<and>
     (\<forall>i. owners t i = 0 \<longrightarrow> tokenApprovals t i = 0) \<and>
     (\<forall>s. \<not> operatorApprovals t 0 s))"

section \<open>Basic facts about the primitives\<close>

lemma moveEth_simps [simp]:
  "moveEth e a b n x = (if x = b then (if a = b then e a - n + n else e b + n) else if x = a then e a - n else e x)"
  by (simp add: moveEth_def Let_def)

lemma bindE_Inr_iff: "bindE r f = Inr y \<longleftrightarrow> (\<exists>v. r = Inr v \<and> f v = Inr y)"
  by (cases r) (simp_all add: bindE_def)

lemma guard_Inr: "(if b then Inl e else x) = Inr y \<longleftrightarrow> \<not> b \<and> x = Inr y"
  by simp

lemma tokenWrite_fields [simp]:
  "token (tokenWrite v f w) = f (token w)"
  "market (tokenWrite v f w) = market w"
  "registry (tokenWrite v f w) = registry w"
  "royaltyRegistry (tokenWrite v f w) = royaltyRegistry w"
  "tokenAddr (tokenWrite v f w) = tokenAddr w"
  "royaltyAddr (tokenWrite v f w) = royaltyAddr w"
  "eth (tokenWrite v f w) = eth w"
  "accepts (tokenWrite v f w) = accepts w"
  "keccak256 (tokenWrite v f w) = keccak256 w"
  "trace (tokenWrite v f w) = trace w @ [SWrite v]"
  by (simp_all add: tokenWrite_def)

lemma royaltyWrite_fields [simp]:
  "token (royaltyWrite v f w) = token w"
  "market (royaltyWrite v f w) = market w"
  "registry (royaltyWrite v f w) = registry w"
  "royaltyRegistry (royaltyWrite v f w) = f (royaltyRegistry w)"
  "tokenAddr (royaltyWrite v f w) = tokenAddr w"
  "royaltyAddr (royaltyWrite v f w) = royaltyAddr w"
  "eth (royaltyWrite v f w) = eth w"
  "accepts (royaltyWrite v f w) = accepts w"
  "keccak256 (royaltyWrite v f w) = keccak256 w"
  "trace (royaltyWrite v f w) = trace w @ [SWrite v]"
  by (simp_all add: royaltyWrite_def)

lemma checked_add_Inr: "checked_add a b = Inr v \<longleftrightarrow> a + b \<le> MAX_UINT256 \<and> v = a + b"
  by (auto simp: checked_add_def)

lemma checked_sub_Inr: "checked_sub a b = Inr v \<longleftrightarrow> b \<le> a \<and> v = a - b"
  by (auto simp: checked_sub_def)

lemma checked_mul_Inr: "checked_mul a b = Inr v \<longleftrightarrow> a * b \<le> MAX_UINT256 \<and> v = a * b"
  by (auto simp: checked_mul_def)

lemma incrementSoldCount_Inr:
  "incrementSoldCount m c modelId = Inr m' \<longleftrightarrow>
     msg_value c = 0 \<and> soldCounts m modelId + 1 \<le> MAX_UINT256 \<and>
     m' = m\<lparr>soldCounts := (soldCounts m)(modelId := soldCounts m modelId + 1)\<rparr>"
  by (auto simp: incrementSoldCount_def bindE_Inr_iff checked_add_Inr)

lemma transfer_to_fields:
  "transfer_to w this a n = Inr w' \<Longrightarrow>
     token w' = token w \<and> market w' = market w \<and> registry w' = registry w \<and>
     royaltyRegistry w' = royaltyRegistry w \<and> tokenAddr w' = tokenAddr w \<and>
     royaltyAddr w' = royaltyAddr w \<and> accepts w' = accepts w \<and>
     trace w' = trace w @ [Pay a n] \<and> eth w' = moveEth (eth w) this a n \<and> n \<le> eth w this \<and> accepts w a"
  by (auto simp: transfer_to_def split: if_splits)

lemma ERC721_mint_Inr:
  "ERC721_mint t to_addr tokenId = Inr t' \<longleftrightarrow>
     (to_addr \<noteq> 0 \<and> owners t tokenId = 0 \<and>
      t' = t\<lparr>balances := (balances t)(to_addr := unchecked_inc (balances t to_addr)),
             owners := (owners t)(tokenId := to_addr)\<rparr>)"
  by (auto simp: ERC721_mint_def ModelToken_update_def ERC721_update_def bindE_def Let_def)

lemma ERC721_burn_Inr:
  "ERC721_burn t tokenId = Inr t' \<longleftrightarrow>
     (owners t tokenId \<noteq> 0 \<and>
      t' = t\<lparr>tokenApprovals := (tokenApprovals t)(tokenId := 0),
             balances := (balances t)
               (owners t tokenId := unchecked_dec (balances t (owners t tokenId))),
             owners := (owners t)(tokenId := 0)\<rparr>)"
  by (auto simp: ERC721_burn_def ModelToken_update_def ERC721_update_def bindE_def Let_def)


lemma distributePayment_Inr:
  assumes "distributePayment w creatorAddr totalPrice royaltyRecipient royaltyBps = Inr w'"
      and "r = totalPrice * royaltyBps div 10000"
  shows "token w' = token w \<and> market w' = market w \<and> registry w' = registry w \<and>
     royaltyRegistry w' = royaltyRegistry w \<and> tokenAddr w' = tokenAddr w \<and>
     royaltyAddr w' = royaltyAddr w \<and> accepts w' = accepts w \<and>
     r \<le> totalPrice \<and> totalPrice * royaltyBps \<le> MAX_UINT256 \<and> accepts w creatorAddr \<and>
     (0 < r \<and> royaltyRecipient \<noteq> 0 \<longrightarrow> accepts w royaltyRecipient) \<and>
     trace w' = trace w @ Pay creatorAddr (totalPrice - r) #
        (if 0 < r \<and> royaltyRecipient \<noteq> 0 then [Pay royaltyRecipient r] else []) \<and>
     eth w' = (if 0 < r \<and> royaltyRecipient \<noteq> 0
               then moveEth (moveEth (eth w) (tokenAddr w) creatorAddr (totalPrice - r))
                     (tokenAddr w) royaltyRecipient r
               else moveEth (eth w) (tokenAddr w) creatorAddr (totalPrice - r))"
proof -
  from assms(1) have "\<exists>w1. r \<le> totalPrice \<and> totalPrice * royaltyBps \<le> MAX_UINT256 \<and>
      transfer_to w (tokenAddr w) creatorAddr (totalPrice - r) = Inr w1 \<and>
      (if 0 < r \<and> royaltyRecipient \<noteq> 0
       then transfer_to w1 (tokenAddr w1) royaltyRecipient r else Inr w1) = Inr w'"
    unfolding assms(2) distributePayment_def Let_def bindE_Inr_iff checked_mul_def checked_sub_def
    by (auto split: if_splits)
  then obtain w1 where
    le: "r \<le> totalPrice" "totalPrice * royaltyBps \<le> MAX_UINT256" and
    t1: "transfer_to w (tokenAddr w) creatorAddr (totalPrice - r) = Inr w1" and
    t2: "(if 0 < r \<and> royaltyRecipient \<noteq> 0
          then transfer_to w1 (tokenAddr w1) royaltyRecipient r else Inr w1) = Inr w'"
    by blast
  note f1 = transfer_to_fields [OF t1]
  show ?thesis
  proof (cases "0 < r \<and> royaltyRecipient \<noteq> 0")
    case True
    with t2 have "transfer_to w1 (tokenAddr w1) royaltyRecipient r = Inr w'" by simp
    note f2 = transfer_to_fields [OF this]
    from True f1 f2 le show ?thesis by simp
  next
    case False
    with t2 have "w' = w1" by (auto split: if_splits)
    with False f1 le show ?thesis by auto
  qed
qed




lemma purchaseEffects_D:
  assumes "purchaseEffects w c modelId licType varIds totalPrice model royaltyBps dur expiry = Inr w7"
  shows "msg_sender c \<noteq> 0 \<and> owners (token w) (tokenIdCounter (token w)) = 0 \<and>
      modelPurchaseCount (token w) modelId + 1 \<le> MAX_UINT256 \<and>
      soldCounts (market w) modelId + 1 \<le> MAX_UINT256 \<and>
      token w7 = (token w)\<lparr>
                tokenIdCounter := unchecked_inc (tokenIdCounter (token w)),
                purchaseSnapshots := (purchaseSnapshots (token w))(tokenIdCounter (token w) :=
                   \<lparr>snapModelId = modelId,
                    purchasedAt = block_timestamp c,
                    pricePaid = totalPrice,
                    license = \<lparr>licenseType = licType,
                               licensePurchasedAt = block_timestamp c,
                               expiresAt = expiry,
                               duration = dur\<rparr>,
                    snapVariationIds = varIds,
                    metadataSnapshot = metadataIPFS model,
                    royaltyBpsAtPurchase = royaltyBps,
                    burned = False,
                    downloadKey = []\<rparr>),
                balances := (balances (token w))
                   (msg_sender c := unchecked_inc (balances (token w) (msg_sender c))),
                owners := (owners (token w))(tokenIdCounter (token w) := msg_sender c),
                tokenURIs := (tokenURIs (token w))(tokenIdCounter (token w) := metadataIPFS model),
                userTokens := (userTokens (token w))
                   (msg_sender c := userTokens (token w) (msg_sender c) @ [tokenIdCounter (token w)]),
                modelPurchaseCount := (modelPurchaseCount (token w))
                   (modelId := modelPurchaseCount (token w) modelId + 1)\<rparr> \<and>
      market w7 = (market w)\<lparr>soldCounts := (soldCounts (market w))
                   (modelId := soldCounts (market w) modelId + 1)\<rparr> \<and>
      trace w7 = trace w @ [SWrite ''_tokenIdCounter'', SWrite ''purchaseSnapshots'',
                 SWrite ''_owners'', SWrite ''_tokenURIs'', SWrite ''userTokens'',
                 SWrite ''modelPurchaseCount'', SWrite ''soldCounts''] \<and>
      registry w7 = registry w \<and> royaltyRegistry w7 = royaltyRegistry w \<and>
      tokenAddr w7 = tokenAddr w \<and> royaltyAddr w7 = royaltyAddr w \<and> eth w7 = eth w \<and>
      accepts w7 = accepts w \<and> keccak256 w7 = keccak256 w"
  using assms unfolding purchaseEffects_def Let_def
  by (auto simp: bindE_Inr_iff ERC721_mint_Inr incrementSoldCount_Inr checked_add_Inr)


lemma receiveValue_Inr:
  "receiveValue w c this = Inr w1 \<longleftrightarrow>
     msg_value c \<le> eth w (msg_sender c) \<and>
     w1 = w\<lparr>eth := moveEth (eth w) (msg_sender c) this (msg_value c)\<rparr>"
  by (auto simp: receiveValue_def)

lemma purchaseModel_Inr_E:
  assumes "purchaseModel w c modelId licType varIds = Inr w'"
  obtains P R a dur expiry w7 where
    "msg_value c \<le> eth w (msg_sender c)"
    "owners (token w) modelId \<noteq> 0"
    "canPurchase (registry w) (market w) modelId"
    "getTotalPrice (market w) modelId licType varIds = Inr P"
    "P \<le> msg_value c"
    "royaltyInfo (market w) modelId P = Inr (R, a)"
    "getLicenseDuration (market w) modelId licType = Inr dur"
    "(if dur > 0 then checked_add (block_timestamp c) dur else Inr 0) = Inr expiry"
    "purchaseEffects (w\<lparr>eth := moveEth (eth w) (msg_sender c) (tokenAddr w) (msg_value c)\<rparr>)
        c modelId licType varIds P (models (registry w) modelId) a dur expiry = Inr w7"
    "distributePayment w7 (creator (models (registry w) modelId)) P R a = Inr w'"
  using assms unfolding purchaseModel_def Let_def
  by (auto simp: bindE_Inr_iff guard_Inr receiveValue_Inr ERC721_exists_def)

lemma purchaseModel_Inr_D:
  assumes "purchaseModel w c modelId licType varIds = Inr w'"
      and "getTotalPrice (market w) modelId licType varIds = Inr P"
      and "royaltyInfo (market w) modelId P = Inr (R, a)"
      and "r = P * a div 10000"
  shows "P \<le> msg_value c \<and> msg_value c \<le> eth w (msg_sender c) \<and>
     canPurchase (registry w) (market w) modelId \<and> owners (token w) modelId \<noteq> 0 \<and>
     msg_sender c \<noteq> 0 \<and> owners (token w) (tokenIdCounter (token w)) = 0 \<and>
     r \<le> P \<and> accepts w (creator (models (registry w) modelId)) \<and>
     (0 < r \<and> R \<noteq> 0 \<longrightarrow> accepts w R) \<and>
     tokenIdCounter (token w') = unchecked_inc (tokenIdCounter (token w)) \<and>
     owners (token w') = (owners (token w))(tokenIdCounter (token w) := msg_sender c) \<and>
     soldCounts (market w') = (soldCounts (market w))(modelId := soldCounts (market w) modelId + 1) \<and>
     tokenAddr w' = tokenAddr w \<and> accepts w' = accepts w \<and>
     royaltyRegistry w' = royaltyRegistry w \<and>
     trace w' = trace w @ [SWrite ''_tokenIdCounter'', SWrite ''purchaseSnapshots'', SWrite ''_owners'',
        SWrite ''_tokenURIs'', SWrite ''userTokens'', SWrite ''modelPurchaseCount'', SWrite ''soldCounts'',
        Pay (creator (models (registry w) modelId)) (P - r)] @
        (if 0 < r \<and> R \<noteq> 0 then [Pay R r] else []) \<and>
     eth w' = (if 0 < r \<and> R \<noteq> 0
               then moveEth (moveEth (moveEth (eth w) (msg_sender c) (tokenAddr w) (msg_value c))
                       (tokenAddr w) (creator (models (registry w) modelId)) (P - r))
                     (tokenAddr w) R r
               else moveEth (moveEth (eth w) (msg_sender c) (tokenAddr w) (msg_value c))
                       (tokenAddr w) (creator (models (registry w) modelId)) (P - r))"
proof -
  from assms(1) obtain P' R' a' dur expiry w7 where h:
    "msg_value c \<le> eth w (msg_sender c)"
    "owners (token w) modelId \<noteq> 0"
    "canPurchase (registry w) (market w) modelId"
    "getTotalPrice (market w) modelId licType varIds = Inr P'"
    "P' \<le> msg_value c"
    "royaltyInfo (market w) modelId P' = Inr (R', a')"
    "purchaseEffects (w\<lparr>eth := moveEth (eth w) (msg_sender c) (tokenAddr w) (msg_value c)\<rparr>)
        c modelId licType varIds P' (models (registry w) modelId) a' dur expiry = Inr w7"
    "distributePayment w7 (creator (models (registry w) modelId)) P' R' a' = Inr w'"
    by (rule purchaseModel_Inr_E)
  from h(4) assms(2) have P: "P' = P" by simp
  with h(6) assms(3) have R: "R' = R" "a' = a" by simp_all
  note e = purchaseEffects_D [OF h(7)]
  note d = distributePayment_Inr [OF h(8) refl]
  from e d h(1,2,3,5) show ?thesis
    unfolding P R assms(4) by simp
qed

lemma royaltyInfo_recipient:
  "royaltyInfo m modelId p = Inr (R, x) \<Longrightarrow> R = recipient (royalties m modelId)"
  by (auto simp: royaltyInfo_def Let_def bindE_Inr_iff split: if_splits)

lemma ownerOf_Inr: "ownerOf t tokenId = Inr a \<longleftrightarrow> owners t tokenId \<noteq> 0 \<and> a = owners t tokenId"
  by (auto simp: ownerOf_def)

lemma transfer_to_Inr:
  "transfer_to w this a n = Inr w' \<longleftrightarrow>
     n \<le> eth w this \<and> accepts w a \<and>
     w' = w\<lparr>eth := moveEth (eth w) this a n, trace := trace w @ [Pay a n]\<rparr>"
  by (auto simp: transfer_to_def)




lemma payRenewalRoyalty_D:
  assumes "payRenewalRoyalty w2 modelId P r = Inr w'"
      and "R = recipient (royalties (market w2) modelId)"
  shows "token w' = token w2 \<and> market w' = market w2 \<and> registry w' = registry w2 \<and>
     royaltyRegistry w' = royaltyRegistry w2 \<and> tokenAddr w' = tokenAddr w2 \<and>
     royaltyAddr w' = royaltyAddr w2 \<and> accepts w' = accepts w2 \<and>
     (0 < r \<and> R \<noteq> 0 \<longrightarrow> accepts w2 R) \<and>
     trace w' = trace w2 @ (if 0 < r \<and> R \<noteq> 0 then [Pay R r] else []) \<and>
     eth w' = (if 0 < r \<and> R \<noteq> 0 then moveEth (eth w2) (tokenAddr w2) R r else eth w2)"
proof (cases "0 < r")
  case False
  with assms show ?thesis by (auto simp: payRenewalRoyalty_def)
next
  case True
  with assms(1) obtain R' x where ri: "royaltyInfo (market w2) modelId P = Inr (R', x)"
    and rest: "(if R' \<noteq> 0 then transfer_to w2 (tokenAddr w2) R' r else Inr w2) = Inr w'"
    by (auto simp: payRenewalRoyalty_def bindE_Inr_iff)
  from royaltyInfo_recipient [OF ri] assms(2) have R: "R' = R" by simp
  show ?thesis
  proof (cases "R = 0")
    case True
    with rest R have "w' = w2" by simp
    with True show ?thesis by auto
  next
    case False
    with rest R have "transfer_to w2 (tokenAddr w2) R r = Inr w'" by simp
    from transfer_to_fields [OF this] False \<open>0 < r\<close> show ?thesis by simp
  qed
qed

lemma renewLicense_Inr_E:
  assumes "renewLicense w c tokenId = Inr w'"
  obtains P w2 where
    "msg_value c \<le> eth w (msg_sender c)"
    "owners (token w) tokenId \<noteq> 0"
    "owners (token w) tokenId = msg_sender c"
    "0 < expiresAt (license (purchaseSnapshots (token w) tokenId))"
    "\<not> burned (purchaseSnapshots (token w) tokenId)"
    "getLicensePrice (market w) (snapModelId (purchaseSnapshots (token w) tokenId))
       (licenseType (license (purchaseSnapshots (token w) tokenId))) = Inr P"
    "P \<le> msg_value c"
    "expiresAt (license (purchaseSnapshots (token w) tokenId)) +
       duration (license (purchaseSnapshots (token w) tokenId)) \<le> MAX_UINT256"
    "P * royaltyBpsAtPurchase (purchaseSnapshots (token w) tokenId) div 10000 \<le> P"
    "transfer_to
       (tokenWrite ''purchaseSnapshots.license.expiresAt''
          (\<lambda>t. t\<lparr>purchaseSnapshots := (purchaseSnapshots t)(tokenId :=
             (purchaseSnapshots t tokenId)\<lparr>license :=
                (license (purchaseSnapshots t tokenId))\<lparr>expiresAt :=
                   expiresAt (license (purchaseSnapshots (token w) tokenId)) +
                   duration (license (purchaseSnapshots (token w) tokenId))\<rparr>\<rparr>)\<rparr>)
          (w\<lparr>eth := moveEth (eth w) (msg_sender c) (tokenAddr w) (msg_value c)\<rparr>))
       (tokenAddr w)
       (creator (models (registry w) (snapModelId (purchaseSnapshots (token w) tokenId))))
       (P - P * royaltyBpsAtPurchase (purchaseSnapshots (token w) tokenId) div 10000) = Inr w2"
    "payRenewalRoyalty w2 (snapModelId (purchaseSnapshots (token w) tokenId)) P
       (P * royaltyBpsAtPurchase (purchaseSnapshots (token w) tokenId) div 10000) = Inr w'"
  using assms unfolding renewLicense_def Let_def
  by (auto simp: bindE_Inr_iff guard_Inr receiveValue_Inr ERC721_exists_def ownerOf_Inr
        checked_add_Inr checked_mul_Inr checked_sub_Inr)

lemma renewLicense_D:
  assumes "renewLicense w c tokenId = Inr w'"
      and "s = purchaseSnapshots (token w) tokenId"
      and "getLicensePrice (market w) (snapModelId s) (licenseType (license s)) = Inr P"
      and "r = P * royaltyBpsAtPurchase s div 10000"
      and "R = recipient (royalties (market w) (snapModelId s))"
  shows "owners (token w) tokenId = msg_sender c \<and> msg_sender c \<noteq> 0 \<and>
     0 < expiresAt (license s) \<and> \<not> burned s \<and> P \<le> msg_value c \<and>
     msg_value c \<le> eth w (msg_sender c) \<and> r \<le> P \<and>
     accepts w (creator (models (registry w) (snapModelId s))) \<and>
     (0 < r \<and> R \<noteq> 0 \<longrightarrow> accepts w R) \<and>
     token w' = (token w)\<lparr>purchaseSnapshots := (purchaseSnapshots (token w))(tokenId :=
        s\<lparr>license := (license s)\<lparr>expiresAt :=
             expiresAt (license s) + duration (license s)\<rparr>\<rparr>)\<rparr> \<and>
     market w' = market w \<and> registry w' = registry w \<and>
     royaltyRegistry w' = royaltyRegistry w \<and> tokenAddr w' = tokenAddr w \<and>
     accepts w' = accepts w \<and>
     trace w' = trace w @ [SWrite ''purchaseSnapshots.license.expiresAt'',
        Pay (creator (models (registry w) (snapModelId s))) (P - r)] @
        (if 0 < r \<and> R \<noteq> 0 then [Pay R r] else []) \<and>
     eth w' = (if 0 < r \<and> R \<noteq> 0
               then moveEth (moveEth (moveEth (eth w) (msg_sender c) (tokenAddr w) (msg_value c))
                       (tokenAddr w) (creator (models (registry w) (snapModelId s))) (P - r))
                     (tokenAddr w) R r
               else moveEth (moveEth (eth w) (msg_sender c) (tokenAddr w) (msg_value c))
                       (tokenAddr w) (creator (models (registry w) (snapModelId s))) (P - r))"
proof -
  from assms(1) obtain P' w2 where h:
    "msg_value c \<le> eth w (msg_sender c)"
    "owners (token w) tokenId \<noteq> 0"
    "owners (token w) tokenId = msg_sender c"
    "0 < expiresAt (license (purchaseSnapshots (token w) tokenId))"
    "\<not> burned (purchaseSnapshots (token w) tokenId)"
    "getLicensePrice (market w) (snapModelId (purchaseSnapshots (token w) tokenId))
       (licenseType (license (purchaseSnapshots (token w) tokenId))) = Inr P'"
    "P' \<le> msg_value c"
    "P' * royaltyBpsAtPurchase (purchaseSnapshots (token w) tokenId) div 10000 \<le> P'"
    "transfer_to
       (tokenWrite ''purchaseSnapshots.license.expiresAt''
          (\<lambda>t. t\<lparr>purchaseSnapshots := (purchaseSnapshots t)(tokenId :=
             (purchaseSnapshots t tokenId)\<lparr>license :=
                (license (purchaseSnapshots t tokenId))\<lparr>expiresAt :=
                   expiresAt (license (purchaseSnapshots (token w) tokenId)) +
                   duration (license (purchaseSnapshots (token w) tokenId))\<rparr>\<rparr>)\<rparr>)
          (w\<lparr>eth := moveEth (eth w) (msg_sender c) (tokenAddr w) (msg_value c)\<rparr>))
       (tokenAddr w)
       (creator (models (registry w) (snapModelId (purchaseSnapshots (token w) tokenId))))
       (P' - P' * royaltyBpsAtPurchase (purchaseSnapshots (token w) tokenId) div 10000) = Inr w2"
    "payRenewalRoyalty w2 (snapModelId (purchaseSnapshots (token w) tokenId)) P'
       (P' * royaltyBpsAtPurchase (purchaseSnapshots (token w) tokenId) div 10000) = Inr w'"
    by (rule renewLicense_Inr_E)
  from h(6) assms(2,3) have P: "P' = P" by simp
  note t = transfer_to_fields [OF h(9)]
  note p = payRenewalRoyalty_D [OF h(10) refl]
  from t p h(1-5,7,8) show ?thesis
    unfolding P assms(2,4,5) by simp
qed

section \<open>Evaluating transactions on the concrete deployments\<close>

text \<open>
  Concrete transactions are evaluated by the simplifier in the order the code runs:
  the congruence rules keep it from rewriting a continuation before its argument is a
  value.
\<close>

lemma bindE_simps: "bindE (Inr v) f = f v" "bindE (Inl e) f = Inl e"
  by (simp_all add: bindE_def)

lemma bindE_weak_cong: "r = r' \<Longrightarrow> bindE r f = bindE r' f"
  by simp

lemmas sample_defs = deployed_def initRegistry_def initMarket_def initToken_def
  initRoyaltyRegistry_def sampleRegistry_def sampleMarket_def sampleConfig_def listed_def
  listedMinted_def sampleToken_def sampleSnapshot_def zeroModel_def zeroSnapshot_def ctxOf_def
  sampleRegistry2_def twoModels_def wired_def royaltySample_def

lemmas exec_defs = purchaseModel_def purchaseEffects_def distributePayment_def transfer_to_def
  receiveValue_def canPurchase_def isModelActive_def getTotalPrice_def getLicensePrice_def
  getLicenseDuration_def royaltyInfo_def checked_add_def checked_sub_def checked_mul_def
  MAX_UINT256_def unchecked_inc_def unchecked_dec_def ERC721_mint_def ERC721_burn_def ModelToken_update_def ERC721_update_def
  incrementSoldCount_def ERC721_exists_def ownerOf_def bindE_simps Let_def tokenWrite_def
  royaltyWrite_def actionsOf_def balanceAfter_def txTrace_def isLicenseValid_def
  renewLicense_def payRenewalRoyalty_def

text \<open>The sample states \<open>listed\<close> and \<open>royaltySample\<close> are reached from \<open>deployed\<close>.\<close>

lemma listed_reached:
  "registerModel (registry deployed) (ctxOf 10 0 1000) ''QmModel'' ''QmMeta'' = Inr (0, sampleRegistry) \<and>
   bindE (setLicenseConfig sampleRegistry (market deployed) (ctxOf 10 0 1001) 0 sampleConfig) (\<lambda>m1.
     bindE (setRoyalty sampleRegistry m1 (ctxOf 10 0 1002) 0 20 1000) (\<lambda>m2.
       toggleForSale sampleRegistry m2 (ctxOf 10 0 1003) 0)) = Inr sampleMarket \<and>
   listed = deployed\<lparr>registry := sampleRegistry, market := sampleMarket\<rparr>"
  by (simp add: registerModel_def setLicenseConfig_def setRoyalty_def toggleForSale_def
      deployed_def initRegistry_def initMarket_def sampleRegistry_def sampleMarket_def
      listed_def ctxOf_def bindE_def Let_def MAX_ROYALTY_BPS_def unchecked_inc_def
      MAX_UINT256_def)

lemma royaltySample_reached:
  "bindE (registerModel (registry deployed) (ctxOf 10 0 1000) ''QmModel'' ''QmMeta'') (\<lambda>(i, r1).
     registerModel r1 (ctxOf 11 0 1100) ''QmDeriv'' ''QmDerivMeta'') = Inr (1, sampleRegistry2) \<and>
   setMarketplace sampleRegistry2 (ctxOf 1 0 1200) 101 = Inr (registry wired) \<and>
   setDerivativeRoyalty wired (ctxOf 11 0 1300) 1 0 1000 = Inr royaltySample"
  by (simp add: registerModel_def setMarketplace_def setDerivativeRoyalty_def
      incrementDerivativeCount_def checked_add_def MAX_UINT256_def royaltyWrite_def
      deployed_def initRegistry_def initRoyaltyRegistry_def sampleRegistry2_def
      twoModels_def wired_def royaltySample_def zeroModel_def
      ctxOf_def bindE_def Let_def MAX_DERIVATIVE_ROYALTY_BPS_def fun_upd_twist
      unchecked_inc_def)

section \<open>The royalty split of a purchase\<close>

text \<open>
  C1 (the code departs from the claim). The claim: a purchase at price \<open>300\<close> of an asset
  with a royalty of \<open>1000\<close> basis points to \<open>R\<close> pays the creator \<open>270\<close> and \<open>R\<close> \<open>30\<close>.
  The code, in the state \<open>listed\<close> that the scenario's set-up reaches: buyer \<open>30\<close>
  tenders \<open>300\<close> for the commercial license of model \<open>0\<close>, whose price is \<open>300\<close> and whose
  royalty, by \<open>royaltyInfo\<close>, is \<open>30\<close> to account \<open>20\<close>; the purchase reverts with
  "Token does not exist" and nobody is paid. Where the guard passes (\<open>listedMinted\<close>, in
  which a token \<open>0\<close> exists), the purchase succeeds and its only transfer is \<open>300\<close> to the
  creator \<open>10\<close>: account \<open>20\<close> receives nothing, because the royalty amount \<open>30\<close> is
  applied to the price a second time as if it were basis points
  (\<open>300 * 30 div 10000 = 0\<close>).
\<close>

theorem C1_purchase_pays_creator_300_royalty_0:
  "getTotalPrice (market listed) 0 ''commercial'' [] = Inr 300 \<and>
   royaltyInfo (market listed) 0 300 = Inr (20, 30) \<and>
   purchaseModel listed (ctxOf 30 300 1500) 0 ''commercial'' [] = Inl TokenDoesNotExist \<and>
   actionsOf listedMinted (purchaseModel listedMinted (ctxOf 30 300 1500) 0 ''commercial'' [])
     = Inr [SWrite ''_tokenIdCounter'', SWrite ''purchaseSnapshots'', SWrite ''_owners'',
            SWrite ''_tokenURIs'', SWrite ''userTokens'', SWrite ''modelPurchaseCount'',
            SWrite ''soldCounts'', Pay 10 300] \<and>
   balanceAfter (purchaseModel listedMinted (ctxOf 30 300 1500) 0 ''commercial'' []) 10 = Inr 300 \<and>
   balanceAfter (purchaseModel listedMinted (ctxOf 30 300 1500) 0 ''commercial'' []) 20 = Inr 0"
  by (simp add: sample_defs exec_defs cong: bindE_weak_cong let_weak_cong)

section \<open>Who may raise the sold count\<close>

text \<open>
  C4 (the code departs from the claim). The claim: \<open>incrementSoldCount\<close> is rejected for
  every caller but the token contract. The code: account \<open>666\<close>, which is not the token
  contract (address \<open>100\<close>), calls \<open>incrementSoldCount(0)\<close> on the marketplace of \<open>listed\<close>;
  the call succeeds and the sold count of model \<open>0\<close> goes from \<open>0\<close> to \<open>1\<close>.
\<close>

theorem C4_incrementSoldCount_accepts_any_caller:
  "tokenAddr listed = 100 \<and> soldCounts (market listed) 0 = 0 \<and>
   incrementSoldCount (market listed) (ctxOf 666 0 5000) 0
     = Inr ((market listed)\<lparr>soldCounts := (soldCounts (market listed))(0 := 1)\<rparr>)"
  by (simp add: sample_defs exec_defs cong: bindE_weak_cong let_weak_cong)

section \<open>Renewal extends the expiry by the snapshotted duration\<close>

text \<open>
  C5. A successful \<open>renewLicense\<close> happens only on a record that is not perpetual and not
  burned, and it sets the record's expiry to the old expiry plus the duration stored in
  the record's snapshot; the stored duration itself stays. The block timestamp and the
  marketplace's current configuration play no part: with any marketplace state \<open>m\<close> in
  place of the current one, a renewal that succeeds yields the same new expiry.
\<close>

theorem C5_renew_adds_snapshot_duration:
  "(renewLicense w c tokenId = Inr w' \<longrightarrow>
      0 < expiresAt (license (purchaseSnapshots (token w) tokenId)) \<and>
      \<not> burned (purchaseSnapshots (token w) tokenId) \<and>
      expiresAt (license (purchaseSnapshots (token w') tokenId)) =
        expiresAt (license (purchaseSnapshots (token w) tokenId)) +
        duration (license (purchaseSnapshots (token w) tokenId)) \<and>
      duration (license (purchaseSnapshots (token w') tokenId)) =
        duration (license (purchaseSnapshots (token w) tokenId))) \<and>
   (renewLicense (w\<lparr>market := m\<rparr>) c2 tokenId = Inr w'' \<longrightarrow>
      expiresAt (license (purchaseSnapshots (token w'') tokenId)) =
        expiresAt (license (purchaseSnapshots (token w) tokenId)) +
        duration (license (purchaseSnapshots (token w) tokenId)))"
proof -
  have main: "expiresAt (license (purchaseSnapshots (token v') tokenId)) =
        expiresAt (license (purchaseSnapshots (token v) tokenId)) +
        duration (license (purchaseSnapshots (token v) tokenId)) \<and>
      duration (license (purchaseSnapshots (token v') tokenId)) =
        duration (license (purchaseSnapshots (token v) tokenId)) \<and>
      0 < expiresAt (license (purchaseSnapshots (token v) tokenId)) \<and>
      \<not> burned (purchaseSnapshots (token v) tokenId)"
    if "renewLicense v d tokenId = Inr v'" for v d v'
  proof -
    from that obtain P where
      "getLicensePrice (market v) (snapModelId (purchaseSnapshots (token v) tokenId))
         (licenseType (license (purchaseSnapshots (token v) tokenId))) = Inr P"
      by (rule renewLicense_Inr_E)
    from renewLicense_D [OF that refl this refl refl] show ?thesis by simp
  qed
  show ?thesis using main [of w c w'] main [of "w\<lparr>market := m\<rparr>" c2 w''] by simp
qed

theorem C5_witness:
  "renewLicense (listedMinted\<lparr>market := (market listedMinted)\<lparr>licenseConfigs :=
        (licenseConfigs (market listedMinted))(0 := sampleConfig\<lparr>commercialDuration := 86400\<rparr>)\<rparr>\<rparr>)
      (ctxOf 40 300 40000000) 0
    = Inr (projr (renewLicense (listedMinted\<lparr>market := (market listedMinted)\<lparr>licenseConfigs :=
        (licenseConfigs (market listedMinted))(0 := sampleConfig\<lparr>commercialDuration := 86400\<rparr>)\<rparr>\<rparr>)
      (ctxOf 40 300 40000000) 0)) \<and>
   expiresAt (license (purchaseSnapshots (token listedMinted) 0)) = 31537500 \<and>
   duration (license (purchaseSnapshots (token listedMinted) 0)) = 31536000 \<and>
   expiresAt (license (purchaseSnapshots (token
      (projr (renewLicense (listedMinted\<lparr>market := (market listedMinted)\<lparr>licenseConfigs :=
        (licenseConfigs (market listedMinted))(0 := sampleConfig\<lparr>commercialDuration := 86400\<rparr>)\<rparr>\<rparr>)
      (ctxOf 40 300 40000000) 0))) 0)) = 63073500"
  using C5_renew_adds_snapshot_duration [of listedMinted "ctxOf 40 300 40000000" 0
      "projr (renewLicense listedMinted (ctxOf 40 300 40000000) 0)"
      "(market listedMinted)\<lparr>licenseConfigs :=
        (licenseConfigs (market listedMinted))(0 := sampleConfig\<lparr>commercialDuration := 86400\<rparr>)\<rparr>"
      "ctxOf 40 300 40000000"
      "projr (renewLicense (listedMinted\<lparr>market := (market listedMinted)\<lparr>licenseConfigs :=
        (licenseConfigs (market listedMinted))(0 := sampleConfig\<lparr>commercialDuration := 86400\<rparr>)\<rparr>\<rparr>)
      (ctxOf 40 300 40000000) 0)"]
  by (simp add: sample_defs exec_defs cong: bindE_weak_cong let_weak_cong)

section \<open>Overpayment\<close>









section \<open>Claiming royalties\<close>

lemma claimRoyalties_Inr:
  "claimRoyalties w c = Inr w' \<longleftrightarrow>
     (msg_value c = 0 \<and> 0 < claimableRoyalties (royaltyRegistry w) (msg_sender c) \<and>
      claimableRoyalties (royaltyRegistry w) (msg_sender c) \<le> eth w (royaltyAddr w) \<and>
      accepts w (msg_sender c) \<and>
      w' = w\<lparr>royaltyRegistry := (royaltyRegistry w)\<lparr>claimableRoyalties :=
                (claimableRoyalties (royaltyRegistry w))(msg_sender c := 0)\<rparr>,
             eth := moveEth (eth w) (royaltyAddr w) (msg_sender c)
                      (claimableRoyalties (royaltyRegistry w) (msg_sender c)),
             trace := trace w @ [SWrite ''claimableRoyalties'',
                      Pay (msg_sender c) (claimableRoyalties (royaltyRegistry w) (msg_sender c))]\<rparr>)"
  by (auto simp: claimRoyalties_def Let_def transfer_to_def royaltyWrite_def)

lemma payDirectRoyalty_D:
  assumes "payDirectRoyalty w c creatorAddr message = Inr w'"
  shows "msg_value c \<le> eth w (msg_sender c) \<and> creatorAddr \<noteq> 0 \<and> 0 < msg_value c \<and>
      creatorAddr \<noteq> msg_sender c \<and>
      claimableRoyalties (royaltyRegistry w') =
        (claimableRoyalties (royaltyRegistry w))
          (creatorAddr := claimableRoyalties (royaltyRegistry w) creatorAddr + msg_value c) \<and>
      eth w' = moveEth (eth w) (msg_sender c) (royaltyAddr w) (msg_value c) \<and>
      royaltyAddr w' = royaltyAddr w \<and> accepts w' = accepts w \<and>
      trace w' = trace w @ [SWrite ''claimableRoyalties'', SWrite ''_paymentIdCounter'',
                      SWrite ''royaltyPayments'', SWrite ''creatorPayments'']"
  using assms unfolding payDirectRoyalty_def Let_def
  by (auto simp: bindE_Inr_iff guard_Inr receiveValue_Inr checked_add_Inr)

text \<open>
  C6. \<open>claimRoyalties\<close> reverts when the caller's claimable balance is zero: with "No
  royalties to claim", or, the function not being payable, without a message when the
  call carries value. When it succeeds, its actions are, in this order, the write that
  zeroes the caller's balance and one transfer of exactly the balance the caller had
  before the call; afterwards the balance is zero and a repeated claim reverts with
  "No royalties to claim". It does succeed whenever the call carries no value, the
  balance is positive, the registry holds that much, and the caller accepts the
  transfer. After a direct tip of
  \<open>X\<close> to a creator whose balance was zero, the creator's balance is \<open>X\<close>, the creator's
  claim (a call without value) succeeds and transfers exactly \<open>X\<close>, the balance is zero again, and the next
  claim reverts.
\<close>

theorem C6_claimRoyalties:
  "(claimableRoyalties (royaltyRegistry w) (msg_sender c) = 0 \<longrightarrow>
      claimRoyalties w c = Inl (if msg_value c = 0 then NoRoyaltiesToClaim else NonPayable)) \<and>
   (claimRoyalties w c = Inr w' \<longrightarrow>
      txTrace w w' = [SWrite ''claimableRoyalties'',
         Pay (msg_sender c) (claimableRoyalties (royaltyRegistry w) (msg_sender c))] \<and>
      claimableRoyalties (royaltyRegistry w') (msg_sender c) = 0 \<and>
      claimRoyalties w' c = Inl NoRoyaltiesToClaim) \<and>
   (msg_value c = 0 \<and>
    0 < claimableRoyalties (royaltyRegistry w) (msg_sender c) \<and>
    claimableRoyalties (royaltyRegistry w) (msg_sender c) \<le> eth w (royaltyAddr w) \<and>
    accepts w (msg_sender c) \<longrightarrow> (\<exists>w2. claimRoyalties w c = Inr w2)) \<and>
   (claimableRoyalties (royaltyRegistry v) creatorAddr = 0 \<and>
    payDirectRoyalty v p creatorAddr message = Inr v1 \<and>
    accepts v creatorAddr \<and> msg_sender d = creatorAddr \<and> msg_value d = 0 \<longrightarrow>
      claimableRoyalties (royaltyRegistry v1) creatorAddr = msg_value p \<and>
      (\<exists>v2. claimRoyalties v1 d = Inr v2 \<and>
            txTrace v1 v2 = [SWrite ''claimableRoyalties'', Pay creatorAddr (msg_value p)] \<and>
            claimableRoyalties (royaltyRegistry v2) creatorAddr = 0 \<and>
            claimRoyalties v2 d = Inl NoRoyaltiesToClaim))"
proof -
  have a: "claimableRoyalties (royaltyRegistry w) (msg_sender c) = 0 \<longrightarrow>
      claimRoyalties w c = Inl (if msg_value c = 0 then NoRoyaltiesToClaim else NonPayable)"
    for w c
    by (simp add: claimRoyalties_def Let_def)
  have b: "txTrace w w' = [SWrite ''claimableRoyalties'',
         Pay (msg_sender c) (claimableRoyalties (royaltyRegistry w) (msg_sender c))] \<and>
      claimableRoyalties (royaltyRegistry w') (msg_sender c) = 0 \<and>
      claimRoyalties w' c = Inl NoRoyaltiesToClaim"
    if "claimRoyalties w c = Inr w'" for w c w'
    using that by (simp add: claimRoyalties_Inr txTrace_def a)
  have e: "\<exists>w2. claimRoyalties w c = Inr w2"
    if "msg_value c = 0"
       "0 < claimableRoyalties (royaltyRegistry w) (msg_sender c)"
       "claimableRoyalties (royaltyRegistry w) (msg_sender c) \<le> eth w (royaltyAddr w)"
       "accepts w (msg_sender c)" for w c
    using that by (simp add: claimRoyalties_Inr)
  have t: "claimableRoyalties (royaltyRegistry v1) creatorAddr = msg_value p \<and>
      (\<exists>v2. claimRoyalties v1 d = Inr v2 \<and>
            txTrace v1 v2 = [SWrite ''claimableRoyalties'', Pay creatorAddr (msg_value p)] \<and>
            claimableRoyalties (royaltyRegistry v2) creatorAddr = 0 \<and>
            claimRoyalties v2 d = Inl NoRoyaltiesToClaim)"
    if z: "claimableRoyalties (royaltyRegistry v) creatorAddr = 0"
      and tip: "payDirectRoyalty v p creatorAddr message = Inr v1"
      and acc: "accepts v creatorAddr" and dd: "msg_sender d = creatorAddr"
      and dv: "msg_value d = 0"
  proof -
    note f = payDirectRoyalty_D [OF tip]
    from f z have bal: "claimableRoyalties (royaltyRegistry v1) creatorAddr = msg_value p"
      by simp
    from f have funds: "msg_value p \<le> eth v1 (royaltyAddr v1)" by auto
    from bal f funds acc dd dv obtain v2 where c2: "claimRoyalties v1 d = Inr v2"
      using e [of d v1] by auto
    from b [OF c2] bal dd c2 show ?thesis by simp
  qed
  from a b e t show ?thesis by blast
qed

theorem C6_witness:
  "claimableRoyalties (royaltyRegistry deployed) 10 = 0 \<and>
   claimRoyalties deployed (ctxOf 10 0 5000) = Inl NoRoyaltiesToClaim \<and>
   payDirectRoyalty deployed (ctxOf 40 50 6000) 10 ''great work'' = Inr tipped \<and>
   accepts deployed 10 \<and>
   claimableRoyalties (royaltyRegistry tipped) 10 = 50 \<and>
   claimRoyalties tipped (ctxOf 10 0 7000) = Inr claimed \<and>
   txTrace tipped claimed = [SWrite ''claimableRoyalties'', Pay 10 50] \<and>
   claimableRoyalties (royaltyRegistry claimed) 10 = 0 \<and>
   eth claimed 10 = 50 \<and>
   claimRoyalties claimed (ctxOf 10 0 7000) = Inl NoRoyaltiesToClaim"
  using C6_claimRoyalties [of tipped "ctxOf 10 0 7000" claimed deployed 10
      "ctxOf 40 50 6000" "''great work''" tipped "ctxOf 10 0 7000"]
  by (simp add: tipped_def claimed_def payDirectRoyalty_def claimRoyalties_def
      sample_defs exec_defs cong: bindE_weak_cong let_weak_cong)


section \<open>Order of state writes and transfers\<close>

lemma payDerivativeRoyalty_D:
  assumes "payDerivativeRoyalty w c derivativeModelId salePrice = Inr w'"
  shows "trace w' = trace w @ [SWrite ''claimableRoyalties'',
        Pay (msg_sender c) (salePrice - salePrice *
           drRoyaltyBps (derivativeRoyalties (royaltyRegistry w) derivativeModelId) div 10000),
        SWrite ''_paymentIdCounter'', SWrite ''royaltyPayments'', SWrite ''creatorPayments'']"
  using assms unfolding payDerivativeRoyalty_def Let_def
  by (auto simp: bindE_Inr_iff guard_Inr receiveValue_Inr checked_add_Inr checked_mul_Inr
        checked_sub_Inr dest!: transfer_to_fields)

lemma payDerivativeRoyalty_not_cei:
  "payDerivativeRoyalty w c derivativeModelId salePrice = Inr w' \<Longrightarrow>
     \<not> effectsBeforeInteractions (txTrace w w')"
  by (drule payDerivativeRoyalty_D) (simp add: txTrace_def)

lemma purchaseModel_cei:
  assumes "purchaseModel w c modelId licType varIds = Inr w'"
  shows "effectsBeforeInteractions (txTrace w w')"
proof -
  from assms obtain P R a where
    g: "getTotalPrice (market w) modelId licType varIds = Inr P" and
    ri: "royaltyInfo (market w) modelId P = Inr (R, a)"
    by (rule purchaseModel_Inr_E)
  from purchaseModel_Inr_D [OF assms g ri refl] show ?thesis
    by (simp add: txTrace_def)
qed

lemma renewLicense_cei:
  assumes "renewLicense w c tokenId = Inr w'"
  shows "effectsBeforeInteractions (txTrace w w')"
proof -
  from assms obtain P where
    g: "getLicensePrice (market w) (snapModelId (purchaseSnapshots (token w) tokenId))
       (licenseType (license (purchaseSnapshots (token w) tokenId))) = Inr P"
    by (rule renewLicense_Inr_E)
  from renewLicense_D [OF assms refl g refl refl] show ?thesis
    by (simp add: txTrace_def)
qed

lemma claimRoyalties_cei:
  "claimRoyalties w c = Inr w' \<Longrightarrow> effectsBeforeInteractions (txTrace w w')"
  by (simp add: claimRoyalties_Inr txTrace_def)

text \<open>
  C8 (the code departs from the claim). The claim: in every operation that moves funds
  outward, \<open>payDerivativeRoyalty\<close> in particular, every state write comes before any
  outward transfer. The code, in the state \<open>royaltySample\<close>: seller \<open>40\<close> calls
  \<open>payDerivativeRoyalty(1, 1000)\<close> with \<open>msg.value = 1000\<close>. The transaction succeeds
  and its actions are: the write to \<open>claimableRoyalties\<close>, the transfer of \<open>900\<close> to the
  seller, and only then the three writes of the audit record (\<open>_paymentIdCounter\<close>,
  \<open>royaltyPayments\<close>, \<open>creatorPayments\<close>).
\<close>

theorem C8_payDerivativeRoyalty_writes_after_transfer:
  "actionsOf royaltySample (payDerivativeRoyalty royaltySample (ctxOf 40 1000 6000) 1 1000)
     = Inr [SWrite ''claimableRoyalties'', Pay 40 900, SWrite ''_paymentIdCounter'',
            SWrite ''royaltyPayments'', SWrite ''creatorPayments''] \<and>
   \<not> effectsBeforeInteractions
        [SWrite ''claimableRoyalties'', Pay 40 900, SWrite ''_paymentIdCounter'',
         SWrite ''royaltyPayments'', SWrite ''creatorPayments'']"
  by (simp add: payDerivativeRoyalty_def sample_defs exec_defs
      cong: bindE_weak_cong let_weak_cong)

section \<open>Who may configure a derivative royalty\<close>

lemma incrementDerivativeCount_Inr:
  "incrementDerivativeCount r c modelId = Inr r' \<longleftrightarrow>
     msg_value c = 0 \<and> existsFlag (models r modelId) \<and> msg_sender c = marketplace r \<and>
     derivativeCount (models r modelId) + 1 \<le> MAX_UINT256 \<and>
     r' = r\<lparr>models := (models r)(modelId :=
            (models r modelId)\<lparr>derivativeCount := derivativeCount (models r modelId) + 1\<rparr>)\<rparr>"
  by (auto simp: incrementDerivativeCount_def bindE_Inr_iff checked_add_Inr)

lemma setDerivativeRoyalty_Inr:
  "setDerivativeRoyalty w c derivativeModelId originalModelId royaltyBps = Inr w' \<longleftrightarrow>
     msg_value c = 0 \<and>
     existsFlag (models (registry w) derivativeModelId) \<and>
     existsFlag (models (registry w) originalModelId) \<and>
     royaltyBps \<le> MAX_DERIVATIVE_ROYALTY_BPS \<and>
     creator (models (registry w) originalModelId) \<noteq> 0 \<and>
     royaltyAddr w = marketplace (registry w) \<and>
     derivativeCount (models (registry w) originalModelId) + 1 \<le> MAX_UINT256 \<and>
     w' = w\<lparr>royaltyRegistry := (royaltyRegistry w)\<lparr>derivativeRoyalties :=
               (derivativeRoyalties (royaltyRegistry w))(derivativeModelId :=
                  \<lparr>drOriginalModelId = originalModelId,
                   originalCreator = creator (models (registry w) originalModelId),
                   drRoyaltyBps = royaltyBps,
                   drActive = True\<rparr>)\<rparr>,
            registry := (registry w)\<lparr>models := (models (registry w))(originalModelId :=
               (models (registry w) originalModelId)\<lparr>derivativeCount :=
                  derivativeCount (models (registry w) originalModelId) + 1\<rparr>)\<rparr>,
            trace := trace w @ [SWrite ''derivativeRoyalties'', SWrite ''models.derivativeCount'']\<rparr>"
  unfolding setDerivativeRoyalty_def Let_def
  by (auto simp: bindE_Inr_iff incrementDerivativeCount_Inr royaltyWrite_def)


text \<open>
  C10, counterexample. In \<open>twoModels\<close> both models exist and the rate \<open>1000\<close> is within
  the cap, yet \<open>setDerivativeRoyalty(1, 0, 1000)\<close>, called without value, reverts: the registry rejects the
  royalty registry's call of \<open>incrementDerivativeCount\<close> with "Only marketplace can
  call", because the registry's \<open>marketplace\<close> address is not the royalty registry.
\<close>

theorem C10_counterexample:
  "existsFlag (models (registry twoModels) 1) \<and>
   existsFlag (models (registry twoModels) 0) \<and>
   (1000::nat) \<le> MAX_DERIVATIVE_ROYALTY_BPS \<and>
   setDerivativeRoyalty twoModels (ctxOf 11 0 1300) 1 0 1000 = Inl OnlyMarketplace"
  by (simp add: setDerivativeRoyalty_def incrementDerivativeCount_def
      MAX_DERIVATIVE_ROYALTY_BPS_def sample_defs exec_defs
      cong: bindE_weak_cong let_weak_cong)

text \<open>
  C10, as amended. \<open>setDerivativeRoyalty\<close> succeeds exactly when the call carries no
  value (the function is not payable), both models exist, the rate is at most \<open>2000\<close>,
  the original model's creator is not \<open>address(0)\<close>, the registry's \<open>marketplace\<close>
  address is the royalty registry itself, and the original's derivative counter does
  not overflow. The caller plays no part: two calls that carry the same value have the
  same outcome, whoever makes them and whenever. On success the entry of the derivative is overwritten
  with the original model, its current creator, the given rate and \<open>active = true\<close>,
  whatever was there; in particular, after the owner deactivated an entry, a successful
  call by anybody leaves it active with the new payee and rate.
\<close>

theorem C10_setDerivativeRoyalty_any_caller:
  "(setDerivativeRoyalty w c derivativeModelId originalModelId royaltyBps = Inr w' \<longleftrightarrow>
     msg_value c = 0 \<and>
     existsFlag (models (registry w) derivativeModelId) \<and>
     existsFlag (models (registry w) originalModelId) \<and>
     royaltyBps \<le> MAX_DERIVATIVE_ROYALTY_BPS \<and>
     creator (models (registry w) originalModelId) \<noteq> 0 \<and>
     royaltyAddr w = marketplace (registry w) \<and>
     derivativeCount (models (registry w) originalModelId) + 1 \<le> MAX_UINT256 \<and>
     w' = w\<lparr>royaltyRegistry := (royaltyRegistry w)\<lparr>derivativeRoyalties :=
               (derivativeRoyalties (royaltyRegistry w))(derivativeModelId :=
                  \<lparr>drOriginalModelId = originalModelId,
                   originalCreator = creator (models (registry w) originalModelId),
                   drRoyaltyBps = royaltyBps,
                   drActive = True\<rparr>)\<rparr>,
            registry := (registry w)\<lparr>models := (models (registry w))(originalModelId :=
               (models (registry w) originalModelId)\<lparr>derivativeCount :=
                  derivativeCount (models (registry w) originalModelId) + 1\<rparr>)\<rparr>,
            trace := trace w @ [SWrite ''derivativeRoyalties'', SWrite ''models.derivativeCount'']\<rparr>) \<and>
   (msg_value c2 = msg_value c \<longrightarrow>
      setDerivativeRoyalty w c2 derivativeModelId originalModelId royaltyBps =
        setDerivativeRoyalty w c derivativeModelId originalModelId royaltyBps) \<and>
   (deactivateDerivativeRoyalty v a derivativeModelId = Inr v1 \<and>
    setDerivativeRoyalty v1 c derivativeModelId originalModelId royaltyBps = Inr v2 \<longrightarrow>
      \<not> drActive (derivativeRoyalties (royaltyRegistry v1) derivativeModelId) \<and>
      derivativeRoyalties (royaltyRegistry v2) derivativeModelId =
        \<lparr>drOriginalModelId = originalModelId,
         originalCreator = creator (models (registry v) originalModelId),
         drRoyaltyBps = royaltyBps,
         drActive = True\<rparr>)"
proof -
  have ind: "msg_value c2 = msg_value c \<longrightarrow>
     setDerivativeRoyalty w c2 derivativeModelId originalModelId royaltyBps =
       setDerivativeRoyalty w c derivativeModelId originalModelId royaltyBps"
    by (simp add: setDerivativeRoyalty_def incrementDerivativeCount_def Let_def)
  have re: "\<not> drActive (derivativeRoyalties (royaltyRegistry v1) derivativeModelId) \<and>
      derivativeRoyalties (royaltyRegistry v2) derivativeModelId =
        \<lparr>drOriginalModelId = originalModelId,
         originalCreator = creator (models (registry v) originalModelId),
         drRoyaltyBps = royaltyBps,
         drActive = True\<rparr>"
    if d: "deactivateDerivativeRoyalty v a derivativeModelId = Inr v1"
      and s: "setDerivativeRoyalty v1 c derivativeModelId originalModelId royaltyBps = Inr v2"
  proof -
    from d have v1: "v1 = royaltyWrite ''derivativeRoyalties.active''
            (\<lambda>d. d\<lparr>derivativeRoyalties := (derivativeRoyalties d)(derivativeModelId :=
               (derivativeRoyalties d derivativeModelId)\<lparr>drActive := False\<rparr>)\<rparr>) v"
      by (auto simp: deactivateDerivativeRoyalty_def split: if_splits)
    from s show ?thesis unfolding setDerivativeRoyalty_Inr by (simp add: v1)
  qed
  from ind re show ?thesis unfolding setDerivativeRoyalty_Inr by blast
qed

theorem C10_witness:
  "setDerivativeRoyalty wired (ctxOf 999 0 1300) 1 0 1000 = Inr royaltySample \<and>
   setDerivativeRoyalty wired (ctxOf 11 0 1300) 1 0 1000 = Inr royaltySample \<and>
   setDerivativeRoyalty wired (ctxOf 40 5 1300) 1 0 1000 = Inl NonPayable \<and>
   creator (models (registry wired) 1) = 11 \<and> royaltyOwner (royaltyRegistry wired) = 1 \<and>
   deactivateDerivativeRoyalty royaltySample (ctxOf 1 0 1400) 1 = Inr deactivatedSample \<and>
   \<not> drActive (derivativeRoyalties (royaltyRegistry deactivatedSample) 1) \<and>
   setDerivativeRoyalty deactivatedSample (ctxOf 999 0 1500) 1 0 2000 = Inr reactivatedSample \<and>
   derivativeRoyalties (royaltyRegistry reactivatedSample) 1 =
     \<lparr>drOriginalModelId = 0, originalCreator = 10, drRoyaltyBps = 2000, drActive = True\<rparr>"
  using C10_setDerivativeRoyalty_any_caller [of wired "ctxOf 999 0 1300" 1 0 1000 royaltySample
      "ctxOf 11 0 1300" royaltySample "ctxOf 1 0 1400" deactivatedSample reactivatedSample]
    C10_setDerivativeRoyalty_any_caller [of deactivatedSample "ctxOf 999 0 1500" 1 0 2000
      reactivatedSample "ctxOf 999 0 1500" royaltySample "ctxOf 1 0 1400" deactivatedSample
      reactivatedSample]
  by (simp add: deactivatedSample_def reactivatedSample_def setDerivativeRoyalty_def
      deactivateDerivativeRoyalty_def incrementDerivativeCount_def
      MAX_DERIVATIVE_ROYALTY_BPS_def sample_defs exec_defs fun_upd_twist
      cong: bindE_weak_cong let_weak_cong)

section \<open>The ownership invariant of the token contract\<close>

lemma burnForDownload_D:
  assumes "burnForDownload w c tokenId = Inr w'"
  shows "owners (token w) tokenId \<noteq> 0 \<and> owners (token w) tokenId = msg_sender c \<and>
     \<not> burned (purchaseSnapshots (token w) tokenId) \<and>
     token w' = (token w)\<lparr>
        purchaseSnapshots := (purchaseSnapshots (token w))(tokenId :=
           (purchaseSnapshots (token w) tokenId)\<lparr>burned := True,
              downloadKey := generateDownloadKey w c tokenId\<rparr>),
        tokenApprovals := (tokenApprovals (token w))(tokenId := 0),
        balances := (balances (token w))(owners (token w) tokenId :=
           unchecked_dec (balances (token w) (owners (token w) tokenId))),
        owners := (owners (token w))(tokenId := 0)\<rparr>"
  using assms unfolding burnForDownload_def Let_def
  by (auto simp: bindE_Inr_iff guard_Inr ERC721_exists_def ownerOf_Inr ERC721_burn_Inr)

lemma setDownloadKey_D:
  assumes "setDownloadKey w c tokenId key = Inr w'"
  shows "msg_sender c = tokenContractOwner (token w) \<and>
     burned (purchaseSnapshots (token w) tokenId) \<and>
     token w' = (token w)\<lparr>purchaseSnapshots := (purchaseSnapshots (token w))(tokenId :=
           (purchaseSnapshots (token w) tokenId)\<lparr>downloadKey := key\<rparr>)\<rparr>"
  using assms unfolding setDownloadKey_def
  by (auto split: if_splits)

lemma transferFrom_D:
  assumes "transferFrom t c from_addr to_addr tokenId = Inr t1"
  shows "to_addr \<noteq> 0 \<and>
     (msg_sender c \<noteq> 0 \<longrightarrow> isAuthorized t (owners t tokenId) (msg_sender c) tokenId) \<and>
     purchaseSnapshots t1 = purchaseSnapshots t \<and>
     tokenIdCounter t1 = tokenIdCounter t \<and>
     tokenContractOwner t1 = tokenContractOwner t \<and>
     operatorApprovals t1 = operatorApprovals t \<and>
     owners t1 = (owners t)(tokenId := to_addr) \<and>
     tokenApprovals t1 = (if owners t tokenId \<noteq> 0 then (tokenApprovals t)(tokenId := 0)
                          else tokenApprovals t)"
  using assms unfolding transferFrom_def ModelToken_update_def ERC721_update_def Let_def
  by (auto simp: bindE_Inr_iff isAuthorized_def split: if_splits)

lemma approve_D:
  assumes "approve t c to_addr tokenId = Inr t1"
  shows "owners t tokenId \<noteq> 0 \<and>
     t1 = t\<lparr>tokenApprovals := (tokenApprovals t)(tokenId := to_addr)\<rparr>"
  using assms unfolding approve_def
  by (auto simp: bindE_Inr_iff ownerOf_Inr split: if_splits)

lemma setApprovalForAll_D:
  assumes "setApprovalForAll t c operator approved = Inr t1"
  shows "t1 = t\<lparr>operatorApprovals := (operatorApprovals t)
            (msg_sender c := (operatorApprovals t (msg_sender c))(operator := approved))\<rparr>"
  using assms unfolding setApprovalForAll_def
  by (auto split: if_splits)


lemma unchecked_inc_below: "n < MAX_UINT256 \<Longrightarrow> unchecked_inc n = n + 1"
  by (simp add: unchecked_inc_def)

lemma token_inv_D:
  assumes "token_inv t"
  shows "owners t i \<noteq> 0 \<Longrightarrow> i < tokenIdCounter t"
    and "burned (purchaseSnapshots t i) \<Longrightarrow> owners t i = 0"
    and "burned (purchaseSnapshots t i) \<Longrightarrow> i < tokenIdCounter t"
    and "owners t i = 0 \<Longrightarrow> tokenApprovals t i = 0"
    and "\<not> operatorApprovals t 0 s"
  using assms by (auto simp: token_inv_def)

text \<open>
  Every successful transaction of the token contract, from a caller other than
  \<open>address(0)\<close> and with the counter below its maximum, keeps the invariant and the
  contract owner, raises the counter by at most one, and leaves the snapshot of a
  burned record as it is, unless it is the contract owner's \<open>setDownloadKey\<close> on that
  record.
\<close>

lemma token_exec_frame:
  assumes inv: "token_inv (token w)"
      and s: "msg_sender c \<noteq> 0"
      and cb: "tokenIdCounter (token w) < MAX_UINT256"
      and ex: "token_exec w c call = Inr w'"
  shows "token_inv (token w') \<and>
     tokenContractOwner (token w') = tokenContractOwner (token w) \<and>
     tokenIdCounter (token w') \<le> tokenIdCounter (token w) + 1 \<and>
     (burned (purchaseSnapshots (token w) tokenId) \<and>
      (\<forall>k. call = SetDownloadKey tokenId k \<longrightarrow>
           msg_sender c \<noteq> tokenContractOwner (token w)) \<longrightarrow>
        purchaseSnapshots (token w') tokenId = purchaseSnapshots (token w) tokenId)"
proof (cases call)
  case (PurchaseModel modelId licType varIds)
  with ex have p: "purchaseModel w c modelId licType varIds = Inr w'" by simp
  then obtain P R a dur expiry w7 where
    e: "purchaseEffects (w\<lparr>eth := moveEth (eth w) (msg_sender c) (tokenAddr w) (msg_value c)\<rparr>)
        c modelId licType varIds P (models (registry w) modelId) a dur expiry = Inr w7" and
    d: "distributePayment w7 (creator (models (registry w) modelId)) P R a = Inr w'"
    by (rule purchaseModel_Inr_E)
  note f = purchaseEffects_D [OF e]
  note g = distributePayment_Inr [OF d refl]
  have lt: "tokenId < tokenIdCounter (token w)"
    if "burned (purchaseSnapshots (token w) tokenId)"
    using token_inv_D(3) [OF inv that] .
  from f g have tw: "token w' = (token w)\<lparr>
                tokenIdCounter := unchecked_inc (tokenIdCounter (token w)),
                purchaseSnapshots := (purchaseSnapshots (token w))(tokenIdCounter (token w) :=
                   \<lparr>snapModelId = modelId,
                    purchasedAt = block_timestamp c,
                    pricePaid = P,
                    license = \<lparr>licenseType = licType,
                               licensePurchasedAt = block_timestamp c,
                               expiresAt = expiry,
                               duration = dur\<rparr>,
                    snapVariationIds = varIds,
                    metadataSnapshot = metadataIPFS (models (registry w) modelId),
                    royaltyBpsAtPurchase = a,
                    burned = False,
                    downloadKey = []\<rparr>),
                balances := (balances (token w))
                   (msg_sender c := unchecked_inc (balances (token w) (msg_sender c))),
                owners := (owners (token w))(tokenIdCounter (token w) := msg_sender c),
                tokenURIs := (tokenURIs (token w))(tokenIdCounter (token w) :=
                   metadataIPFS (models (registry w) modelId)),
                userTokens := (userTokens (token w))
                   (msg_sender c := userTokens (token w) (msg_sender c) @ [tokenIdCounter (token w)]),
                modelPurchaseCount := (modelPurchaseCount (token w))
                   (modelId := modelPurchaseCount (token w) modelId + 1)\<rparr>"
    by simp
  have "token_inv (token w')"
    unfolding tw token_inv_def using inv s
    by (auto simp: token_inv_def less_Suc_eq unchecked_inc_below [OF cb])
  with tw lt show ?thesis by (auto simp: unchecked_inc_below [OF cb])
next
  case (BurnForDownload t2)
  with ex have "burnForDownload w c t2 = Inr w'" by simp
  note f = burnForDownload_D [OF this]
  have ne: "t2 \<noteq> tokenId" if "burned (purchaseSnapshots (token w) tokenId)"
    using f token_inv_D(2) [OF inv that] by auto
  from f have tw: "token w' = (token w)\<lparr>
        purchaseSnapshots := (purchaseSnapshots (token w))(t2 :=
           (purchaseSnapshots (token w) t2)\<lparr>burned := True,
              downloadKey := generateDownloadKey w c t2\<rparr>),
        tokenApprovals := (tokenApprovals (token w))(t2 := 0),
        balances := (balances (token w))(owners (token w) t2 :=
           unchecked_dec (balances (token w) (owners (token w) t2))),
        owners := (owners (token w))(t2 := 0)\<rparr>" by simp
  from f have "owners (token w) t2 \<noteq> 0" by simp
  from token_inv_D(1) [OF inv this] have lt2: "t2 < tokenIdCounter (token w)" .
  have "token_inv (token w')"
    unfolding tw token_inv_def using inv lt2
    by (auto simp: token_inv_def)
  with tw ne show ?thesis by auto
next
  case (SetDownloadKey t2 key)
  with ex have "setDownloadKey w c t2 key = Inr w'" by simp
  note f = setDownloadKey_D [OF this]
  have ne: "t2 \<noteq> tokenId"
    if "\<forall>k. call = SetDownloadKey tokenId k \<longrightarrow>
           msg_sender c \<noteq> tokenContractOwner (token w)"
    using f that SetDownloadKey by auto
  from f have tw: "token w' = (token w)\<lparr>purchaseSnapshots := (purchaseSnapshots (token w))(t2 :=
           (purchaseSnapshots (token w) t2)\<lparr>downloadKey := key\<rparr>)\<rparr>" by simp
  have "token_inv (token w')"
    unfolding tw token_inv_def using inv
    by (auto simp: token_inv_def)
  with tw ne show ?thesis by auto
next
  case (RenewLicense t2)
  with ex have r: "renewLicense w c t2 = Inr w'" by simp
  then obtain P where
    g: "getLicensePrice (market w) (snapModelId (purchaseSnapshots (token w) t2))
       (licenseType (license (purchaseSnapshots (token w) t2))) = Inr P"
    by (rule renewLicense_Inr_E)
  note f = renewLicense_D [OF r refl g refl refl]
  have ne: "t2 \<noteq> tokenId" if "burned (purchaseSnapshots (token w) tokenId)"
    using f token_inv_D(2) [OF inv that] s by auto
  from f have tw: "token w' = (token w)\<lparr>purchaseSnapshots := (purchaseSnapshots (token w))(t2 :=
        (purchaseSnapshots (token w) t2)\<lparr>license := (license (purchaseSnapshots (token w) t2))\<lparr>expiresAt :=
             expiresAt (license (purchaseSnapshots (token w) t2)) +
             duration (license (purchaseSnapshots (token w) t2))\<rparr>\<rparr>)\<rparr>" by simp
  have "token_inv (token w')"
    unfolding tw token_inv_def using inv
    by (auto simp: token_inv_def)
  with tw ne show ?thesis by auto
next
  case (TransferFrom from_addr to_addr t2)
  with ex obtain t1 where tr: "transferFrom (token w) c from_addr to_addr t2 = Inr t1"
    and tw: "token w' = t1"
    by (auto simp: tokenTransferFrom_def bindE_Inr_iff)
  note f = transferFrom_D [OF tr]
  from f s have au: "isAuthorized (token w) (owners (token w) t2) (msg_sender c) t2" by simp
  have own: "owners (token w) t2 \<noteq> 0"
  proof
    assume z: "owners (token w) t2 = 0"
    from token_inv_D(4) [OF inv z] token_inv_D(5) [OF inv] au z s show False
      by (auto simp: isAuthorized_def)
  qed
  from token_inv_D(1) [OF inv own] have lt2: "t2 < tokenIdCounter (token w)" .
  from own inv have nb: "\<not> burned (purchaseSnapshots (token w) t2)"
    by (auto simp: token_inv_def)
  have "token_inv t1"
    unfolding token_inv_def using inv f own lt2 nb
    by (auto simp: token_inv_def)
  with tw f show ?thesis by simp
next
  case (Approve to_addr t2)
  with ex obtain t1 where ap: "approve (token w) c to_addr t2 = Inr t1"
    and tw: "token w' = t1"
    by (auto simp: tokenApprove_def bindE_Inr_iff)
  note f = approve_D [OF ap]
  have "token_inv t1" using inv f by (auto simp: token_inv_def)
  with tw f show ?thesis by simp
next
  case (SetApprovalForAll operator approved)
  with ex obtain t1 where ap: "setApprovalForAll (token w) c operator approved = Inr t1"
    and tw: "token w' = t1"
    by (auto simp: tokenSetApprovalForAll_def bindE_Inr_iff)
  note f = setApprovalForAll_D [OF ap]
  have "token_inv t1" using inv f s by (auto simp: token_inv_def)
  with tw f show ?thesis by simp
qed

lemma token_step_frame:
  assumes inv: "token_inv (token w)"
      and s: "msg_sender (fst x) \<noteq> 0"
      and cb: "tokenIdCounter (token w) < MAX_UINT256"
  shows "token_inv (token (token_step w x)) \<and>
     tokenContractOwner (token (token_step w x)) = tokenContractOwner (token w) \<and>
     tokenIdCounter (token (token_step w x)) \<le> tokenIdCounter (token w) + 1 \<and>
     (burned (purchaseSnapshots (token w) tokenId) \<and>
      (\<forall>k. snd x = SetDownloadKey tokenId k \<longrightarrow>
           msg_sender (fst x) \<noteq> tokenContractOwner (token w)) \<longrightarrow>
        purchaseSnapshots (token (token_step w x)) tokenId
          = purchaseSnapshots (token w) tokenId)"
proof (cases "token_exec w (fst x) (snd x)")
  case (Inl e)
  with inv show ?thesis by (simp add: token_step_def)
next
  case (Inr w')
  from token_exec_frame [OF inv s cb Inr, of tokenId] Inr show ?thesis
    by (simp add: token_step_def)
qed

text \<open>
  The invariant holds right after deployment and along every sequence of transactions
  of the token contract.
\<close>

lemma token_inv_deployed: "token_inv (token deployed)"
  by (simp add: token_inv_def deployed_def initToken_def zeroSnapshot_def)

lemma token_run_inv:
  assumes "token_inv (token w)"
      and "\<forall>x\<in>set cs. msg_sender (fst x) \<noteq> 0"
      and "tokenIdCounter (token w) + length cs \<le> MAX_UINT256"
  shows "token_inv (token (token_run w cs))"
  using assms unfolding token_run_def
proof (induction cs arbitrary: w)
  case Nil
  then show ?case by simp
next
  case (Cons x xs)
  from Cons.prems have s: "msg_sender (fst x) \<noteq> 0"
    and cb: "tokenIdCounter (token w) < MAX_UINT256" by simp_all
  note st = token_step_frame [OF Cons.prems(1) s cb, of 0]
  from st Cons.prems(3)
  have cb': "tokenIdCounter (token (token_step w x)) + length xs \<le> MAX_UINT256" by simp
  from Cons.prems(2) have s': "\<forall>y\<in>set xs. msg_sender (fst y) \<noteq> 0" by simp
  from st have inv': "token_inv (token (token_step w x))" by simp
  from Cons.IH [OF inv' s' cb'] show ?case by simp
qed





section \<open>No license is ever issued on a fresh deployment\<close>

text \<open>
  \<open>purchaseModel\<close> is the only function that mints, and its guard asks for a token
  whose id is the model id. While no token exists the guard fails for every model, so
  no token ever comes to exist.
\<close>

lemma purchaseModel_no_token:
  assumes "owners (token w) modelId = 0"
  shows "purchaseModel w c modelId licType varIds =
     Inl (if eth w (msg_sender c) < msg_value c then InsufficientFunds else TokenDoesNotExist)"
  using assms
  by (simp add: purchaseModel_def receiveValue_def ERC721_exists_def bindE_simps
      cong: bindE_weak_cong)

lemma token_exec_no_owner:
  assumes inv: "token_inv (token w)"
      and no: "\<forall>i. owners (token w) i = 0"
      and s: "msg_sender c \<noteq> 0"
      and ex: "token_exec w c call = Inr w'"
  shows "\<forall>i. owners (token w') i = 0"
proof (cases call)
  case (PurchaseModel modelId licType varIds)
  with ex no show ?thesis by (simp add: purchaseModel_no_token)
next
  case (BurnForDownload t2)
  with ex have "burnForDownload w c t2 = Inr w'" by simp
  from burnForDownload_D [OF this] no show ?thesis by simp
next
  case (SetDownloadKey t2 key)
  with ex have "setDownloadKey w c t2 key = Inr w'" by simp
  from setDownloadKey_D [OF this] no show ?thesis by simp
next
  case (RenewLicense t2)
  with ex have "renewLicense w c t2 = Inr w'" by simp
  then have "owners (token w) t2 \<noteq> 0" by (rule renewLicense_Inr_E)
  with no show ?thesis by simp
next
  case (TransferFrom from_addr to_addr t2)
  with ex obtain t1 where tr: "transferFrom (token w) c from_addr to_addr t2 = Inr t1"
    by (auto simp: tokenTransferFrom_def bindE_Inr_iff)
  from transferFrom_D [OF tr] s
  have au: "isAuthorized (token w) (owners (token w) t2) (msg_sender c) t2" by simp
  from no have z: "owners (token w) t2 = 0" by simp
  from token_inv_D(4) [OF inv z] token_inv_D(5) [OF inv] au z s show ?thesis
    by (auto simp: isAuthorized_def)
next
  case (Approve to_addr t2)
  with ex obtain t1 where ap: "approve (token w) c to_addr t2 = Inr t1"
    by (auto simp: tokenApprove_def bindE_Inr_iff)
  from approve_D [OF ap] no show ?thesis by simp
next
  case (SetApprovalForAll operator approved)
  with ex obtain t1 where ap: "setApprovalForAll (token w) c operator approved = Inr t1"
    and tw: "token w' = t1"
    by (auto simp: tokenSetApprovalForAll_def bindE_Inr_iff)
  from setApprovalForAll_D [OF ap] tw no show ?thesis by simp
qed

lemma token_run_no_owner:
  assumes "token_inv (token w)"
      and "\<forall>i. owners (token w) i = 0"
      and "\<forall>x\<in>set cs. msg_sender (fst x) \<noteq> 0"
      and "tokenIdCounter (token w) + length cs \<le> MAX_UINT256"
  shows "\<forall>i. owners (token (token_run w cs)) i = 0"
  using assms unfolding token_run_def
proof (induction cs arbitrary: w)
  case Nil
  then show ?case by simp
next
  case (Cons x xs)
  from Cons.prems have s: "msg_sender (fst x) \<noteq> 0"
    and cb: "tokenIdCounter (token w) < MAX_UINT256" by simp_all
  note st = token_step_frame [OF Cons.prems(1) s cb, of 0]
  from st Cons.prems(4)
  have cb': "tokenIdCounter (token (token_step w x)) + length xs \<le> MAX_UINT256" by simp
  from Cons.prems(3) have s': "\<forall>y\<in>set xs. msg_sender (fst y) \<noteq> 0" by simp
  from st have inv': "token_inv (token (token_step w x))" by simp
  have no': "\<forall>i. owners (token (token_step w x)) i = 0"
  proof (cases "token_exec w (fst x) (snd x)")
    case (Inl e)
    with Cons.prems(2) show ?thesis by (simp add: token_step_def)
  next
    case (Inr w')
    from token_exec_no_owner [OF Cons.prems(1,2) s Inr] Inr show ?thesis
      by (simp add: token_step_def)
  qed
  from Cons.IH [OF inv' no' s' cb'] show ?case by simp
qed

lemma no_license_ever_issued:
  assumes "\<forall>x\<in>set cs. msg_sender (fst x) \<noteq> 0" and "length cs \<le> MAX_UINT256"
  shows "owners (token (token_run deployed cs)) i = 0"
proof -
  have no: "\<forall>i. owners (token deployed) i = 0"
    by (simp add: deployed_def initToken_def)
  have cb: "tokenIdCounter (token deployed) + length cs \<le> MAX_UINT256"
    using assms(2) by (simp add: deployed_def initToken_def)
  from token_run_no_owner [OF token_inv_deployed no assms(1) cb] show ?thesis by simp
qed

lemma no_purchase_succeeds:
  assumes "token_inv (token w)"
      and "\<forall>i. owners (token w) i = 0"
      and "\<forall>x\<in>set cs. msg_sender (fst x) \<noteq> 0"
      and "tokenIdCounter (token w) + length cs \<le> MAX_UINT256"
  shows "purchaseModel (token_run w cs) c modelId licType varIds =
     Inl (if eth (token_run w cs) (msg_sender c) < msg_value c
          then InsufficientFunds else TokenDoesNotExist)"
proof -
  from token_run_no_owner [OF assms]
  have "owners (token (token_run w cs)) modelId = 0" by simp
  then show ?thesis by (rule purchaseModel_no_token)
qed

section \<open>The outcomes of a purchase\<close>

text \<open>
  C2 (the code departs from the claim). The claim: a purchase fails with "Model not
  available" exactly when \<open>canPurchase\<close> is false, fails with "Insufficient payment"
  exactly when the tendered amount is below \<open>getTotalPrice\<close>, and otherwise succeeds,
  creating a new record id. The code, in the state \<open>listed\<close> that the constructors and
  the creator's \<open>registerModel\<close>, \<open>setLicenseConfig\<close>, \<open>setRoyalty\<close> and \<open>toggleForSale\<close>
  lead to: model \<open>0\<close> can be purchased, the total price of its commercial license
  without variations is \<open>300\<close>, and buyer \<open>30\<close>, who holds \<open>1000\<close>, tenders exactly \<open>300\<close>.
  Neither failure condition of the claim holds, yet the purchase reverts, with "Token
  does not exist": the modifier \<open>tokenExists(modelId)\<close> of \<open>purchaseModel\<close> asks for a
  token whose id is the model id, and no token has been minted. The same buyer
  tendering \<open>299\<close>, below the price, gets that revert too, and not "Insufficient
  payment".
\<close>

theorem C2_purchase_of_purchasable_model_reverts:
  "canPurchase (registry listed) (market listed) 0 \<and>
   getTotalPrice (market listed) 0 ''commercial'' [] = Inr 300 \<and>
   eth listed 30 = 1000 \<and>
   purchaseModel listed (ctxOf 30 300 1500) 0 ''commercial'' [] = Inl TokenDoesNotExist \<and>
   purchaseModel listed (ctxOf 30 299 1500) 0 ''commercial'' [] = Inl TokenDoesNotExist"
  by (simp add: sample_defs exec_defs cong: bindE_weak_cong let_weak_cong)

section \<open>A burned record is terminal\<close>





section \<open>Properties of the registry\<close>

lemma updateMetadata_Inr:
  "updateMetadata r c modelId s = Inr r' \<Longrightarrow>
     r' = r\<lparr>models := (models r)(modelId :=
            (models r modelId)\<lparr>metadataIPFS := s, updatedAt := block_timestamp c\<rparr>)\<rparr>"
  by (auto simp: updateMetadata_def Let_def split: if_splits)

lemma toggleModelActive_Inr:
  "toggleModelActive r c modelId = Inr r' \<Longrightarrow>
     r' = r\<lparr>models := (models r)(modelId :=
            (models r modelId)\<lparr>active := \<not> active (models r modelId)\<rparr>)\<rparr>"
  by (auto simp: toggleModelActive_def split: if_splits)

lemma registry_step_immutable:
  "creator (models (registry_step r x) m) = creator (models r m) \<and>
   createdAt (models (registry_step r x) m) = createdAt (models r m) \<and>
   modelIPFS (models (registry_step r x) m) = modelIPFS (models r m)"
proof (cases x)
  case (Pair c call)
  show ?thesis
  proof (cases call)
    case (UpdateMetadata k s)
    with Pair show ?thesis
      by (auto split: sum.splits dest!: updateMetadata_Inr)
  next
    case (ToggleModelActive k)
    with Pair show ?thesis
      by (auto split: sum.splits dest!: toggleModelActive_Inr)
  qed
qed

lemma registry_run_immutable:
  "creator (models (registry_run r cs) m) = creator (models r m) \<and>
   createdAt (models (registry_run r cs) m) = createdAt (models r m) \<and>
   modelIPFS (models (registry_run r cs) m) = modelIPFS (models r m)"
  unfolding registry_run_def
proof (induction cs arbitrary: r)
  case Nil
  show ?case by simp
next
  case (Cons x xs)
  show ?case using Cons.IH [of "registry_step r x"] registry_step_immutable [of r x m]
    by simp
qed

text \<open>
  C7. The creator and the creation timestamp of every model are the same after any
  sequence of \<open>updateMetadata\<close> and \<open>toggleModelActive\<close> calls, by any callers; a
  successful \<open>updateMetadata\<close> changes only the metadata reference and the last-update
  timestamp of its model, and a successful \<open>toggleModelActive\<close> only flips the active
  flag of its model.
\<close>

theorem C7_creator_createdAt_invariant:
  "creator (models (registry_run r cs) m) = creator (models r m) \<and>
   createdAt (models (registry_run r cs) m) = createdAt (models r m) \<and>
   (updateMetadata r c k s = Inr r1 \<longrightarrow>
      r1 = r\<lparr>models := (models r)(k :=
             (models r k)\<lparr>metadataIPFS := s, updatedAt := block_timestamp c\<rparr>)\<rparr>) \<and>
   (toggleModelActive r c k = Inr r2 \<longrightarrow>
      r2 = r\<lparr>models := (models r)(k :=
             (models r k)\<lparr>active := \<not> active (models r k)\<rparr>)\<rparr>)"
  using registry_run_immutable [of r cs m] updateMetadata_Inr [of r c k s r1]
    toggleModelActive_Inr [of r c k r2]
  by blast


lemma sampleRegistry_reached:
  "registerModel (initRegistry 1) (ctxOf 10 0 1000) ''QmModel'' ''QmMeta'' = Inr (0, sampleRegistry)"
  by (simp add: registerModel_def initRegistry_def sampleRegistry_def ctxOf_def Let_def
      unchecked_inc_def MAX_UINT256_def)

theorem C7_witness:
  "updateMetadata sampleRegistry (ctxOf 10 0 2000) 0 ''QmMeta2''
     = Inr (sampleRegistry\<lparr>models := (models sampleRegistry)(0 :=
             (models sampleRegistry 0)\<lparr>metadataIPFS := ''QmMeta2'', updatedAt := 2000\<rparr>)\<rparr>) \<and>
   toggleModelActive sampleRegistry (ctxOf 10 0 2000) 0
     = Inr (sampleRegistry\<lparr>models := (models sampleRegistry)(0 :=
             (models sampleRegistry 0)\<lparr>active := False\<rparr>)\<rparr>) \<and>
   creator (models (registry_run sampleRegistry
      [(ctxOf 10 0 2000, UpdateMetadata 0 ''QmMeta2''),
       (ctxOf 10 0 3000, ToggleModelActive 0)]) 0) = 10 \<and>
   createdAt (models (registry_run sampleRegistry
      [(ctxOf 10 0 2000, UpdateMetadata 0 ''QmMeta2''),
       (ctxOf 10 0 3000, ToggleModelActive 0)]) 0) = 1000"
  using C7_creator_createdAt_invariant [of sampleRegistry
      "[(ctxOf 10 0 2000, UpdateMetadata 0 ''QmMeta2''),
        (ctxOf 10 0 3000, ToggleModelActive 0)]" 0
      "ctxOf 10 0 2000" 0 "''QmMeta2''"]
  by (simp add: updateMetadata_def toggleModelActive_def sampleRegistry_def ctxOf_def Let_def)

end
